theory Spec2Isabelle
  imports Complex_Main "HOL-Library.Char_ord" "HOL-Library.List_Lexorder"
begin

section \<open>CubeWizard: the visual extraction pipeline of \<open>image_processor.py\<close>\<close>

text \<open>
  The development embeds the class \<open>ImageProcessor\<close> (file \<open>image_processor.py\<close>) and the
  getters of \<open>ConfigManager\<close> it reads (file \<open>config_manager.py\<close>).

  Everything the methods touch outside their arguments is one explicit \<open>world\<close> value that
  is passed in and returned: the files on disk, the recognition engine, the CubeCobra
  endpoint, the Pillow installation and the loaded configuration. What comes from outside
  the program is arbitrary: the content of every file, every reply of the engine, every
  reply of CubeCobra, the configuration. The local platform behaves as documented:
  \<open>Image.open\<close> raises exactly on a missing or undecodable file, \<open>Image.save\<close> raises exactly
  on an unknown file extension or a mode the target format cannot store, \<open>os.remove\<close> and
  \<open>open\<close> raise exactly on a missing file.

  Every method returns the new world together with its result; a method that can raise
  returns \<open>exn + 'a\<close>, with \<open>Inl\<close> the exception that leaves the method.
\<close>

subsection \<open>Python strings\<close>

text \<open>\<open>str.lower\<close>, on the ASCII letters.\<close>

definition lower_char :: "char \<Rightarrow> char" where
  "lower_char c =
     (let n = (of_char c :: nat) in if 65 \<le> n \<and> n \<le> 90 then char_of (n + 32) else c)"

definition py_lower :: "string \<Rightarrow> string" where
  "py_lower s = map lower_char s"

text \<open>The substring test \<open>sub in s\<close>.\<close>

fun py_in :: "string \<Rightarrow> string \<Rightarrow> bool" where
  "py_in sub [] = (sub = [])"
| "py_in sub (c # cs) = (take (length sub) (c # cs) = sub \<or> py_in sub cs)"

text \<open>Truthiness of an optional string or list: \<open>None\<close> and the empty value are false.\<close>

definition truthy :: "'a list option \<Rightarrow> bool" where
  "truthy v = (case v of None \<Rightarrow> False | Some xs \<Rightarrow> xs \<noteq> [])"

text \<open>The slice \<open>xs[:n]\<close>; a negative \<open>n\<close> counts from the end.\<close>

definition py_slice_to :: "int \<Rightarrow> 'a list \<Rightarrow> 'a list" where
  "py_slice_to n xs = (if 0 \<le> n then take (nat n) xs else take (length xs - nat (- n)) xs)"

subsection \<open>pathlib and os.path, POSIX flavour\<close>

text \<open>
  \<open>Path(s)\<close> splits \<open>s\<close> at the separator and drops the empty components and the
  components \<open>.\<close>; the root is \<open>//\<close> for exactly two leading separators and \<open>/\<close> for
  any other number of them. \<open>split_sep\<close> is \<open>s.split('/')\<close>.
\<close>

fun split_sep :: "string \<Rightarrow> string list" where
  "split_sep [] = [[]]"
| "split_sep (c # cs) =
     (if c = CHR ''/'' then [] # split_sep cs
      else (case split_sep cs of [] \<Rightarrow> [[c]] | x # xs \<Rightarrow> (c # x) # xs))"

definition path_root :: "string \<Rightarrow> string" where
  "path_root s =
     (if take 2 s = ''//'' \<and> take 3 s \<noteq> ''///'' then ''//''
      else if take 1 s = ''/'' then ''/'' else [])"

definition path_tail :: "string \<Rightarrow> string list" where
  "path_tail s = filter (\<lambda>x. x \<noteq> [] \<and> x \<noteq> ''.'') (split_sep s)"

text \<open>\<open>Path(s).name\<close>: the final component, empty when there is none.\<close>

definition path_name :: "string \<Rightarrow> string" where
  "path_name s = (if path_tail s = [] then [] else last (path_tail s))"

text \<open>\<open>name.rfind('.')\<close>: the index of the last dot, \<open>None\<close> for Python's \<open>-1\<close>.\<close>

definition rfind_dot :: "string \<Rightarrow> nat option" where
  "rfind_dot n =
     (if CHR ''.'' \<in> set n
      then Some (length n - 1 - length (takeWhile (\<lambda>c. c \<noteq> CHR ''.'') (rev n)))
      else None)"

text \<open>
  \<open>Path(s).suffix\<close> and \<open>Path(s).stem\<close> (CPython up to 3.13): the name is cut at its last
  dot when that dot is neither the first nor the last character.
\<close>

definition name_suffix :: "string \<Rightarrow> string" where
  "name_suffix n =
     (case rfind_dot n of
        None \<Rightarrow> []
      | Some i \<Rightarrow> if 0 < i \<and> i < length n - 1 then drop i n else [])"

definition name_stem :: "string \<Rightarrow> string" where
  "name_stem n =
     (case rfind_dot n of
        None \<Rightarrow> n
      | Some i \<Rightarrow> if 0 < i \<and> i < length n - 1 then take i n else n)"

definition path_suffix :: "string \<Rightarrow> string" where
  "path_suffix s = name_suffix (path_name s)"

definition path_stem :: "string \<Rightarrow> string" where
  "path_stem s = name_stem (path_name s)"

text \<open>\<open>'/'.join(xs)\<close>.\<close>

fun join_sep :: "string list \<Rightarrow> string" where
  "join_sep [] = []"
| "join_sep [x] = x"
| "join_sep (x # y # ys) = x @ ''/'' @ join_sep (y # ys)"

text \<open>
  \<open>str(Path(s).parent / n)\<close> for a single component \<open>n\<close>: the file named \<open>n\<close> beside
  \<open>s\<close>.
\<close>

definition path_sibling :: "string \<Rightarrow> string \<Rightarrow> string" where
  "path_sibling s n = path_root s @ join_sep (butlast (path_tail s) @ [n])"

text \<open>A single component that \<open>Path\<close> keeps as it is.\<close>

definition valid_name :: "string \<Rightarrow> bool" where
  "valid_name n = (n \<noteq> [] \<and> n \<noteq> ''.'' \<and> CHR ''/'' \<notin> set n)"

text \<open>
  The extension Pillow reads off a file name, \<open>os.path.splitext(s)[1]\<close>: the part of the
  last component from its last dot on, provided some earlier character of the component is
  not a dot.
\<close>

definition splitext_ext :: "string \<Rightarrow> string" where
  "splitext_ext s =
     (let comp = rev (takeWhile (\<lambda>c. c \<noteq> CHR ''/'') (rev s)) in
      case rfind_dot comp of
        None \<Rightarrow> []
      | Some i \<Rightarrow> if \<exists>c \<in> set (take i comp). c \<noteq> CHR ''.'' then drop i comp else [])"

subsection \<open>Configuration (\<open>config_manager.py\<close>)\<close>

text \<open>
  The parsed \<open>config.ini\<close>: a value for some pairs of section and key. A getter returns its
  default when the option is missing or does not parse as the requested type.
\<close>

datatype cfg_value = CInt int | CBool bool | CStr string

type_synonym config = "string \<times> string \<rightharpoonup> cfg_value"

definition get_int :: "config \<Rightarrow> string \<Rightarrow> string \<Rightarrow> int \<Rightarrow> int" where
  "get_int c section key dflt =
     (case c (section, key) of Some (CInt i) \<Rightarrow> i | _ \<Rightarrow> dflt)"

definition get_bool :: "config \<Rightarrow> string \<Rightarrow> string \<Rightarrow> bool \<Rightarrow> bool" where
  "get_bool c section key dflt =
     (case c (section, key) of Some (CBool b) \<Rightarrow> b | _ \<Rightarrow> dflt)"

definition get_expected_deck_size :: "config \<Rightarrow> int" where
  "get_expected_deck_size c = get_int c ''output'' ''expected_deck_size'' 40"

definition get_use_multi_pass_detection :: "config \<Rightarrow> bool" where
  "get_use_multi_pass_detection c =
     get_bool c ''image_processing'' ''use_multi_pass_detection'' True"

definition get_enable_validation_pass :: "config \<Rightarrow> bool" where
  "get_enable_validation_pass c =
     get_bool c ''image_processing'' ''enable_validation_pass'' True"

subsection \<open>Images, files and Pillow\<close>

text \<open>
  The modes of a decoded image that matter here: colour, colour with alpha, palette,
  greyscale, greyscale with alpha, and CMYK.
\<close>

datatype mode = RGB | RGBA | P | L | LA | CMYK

text \<open>
  Pixel data is kept symbolic: what was read from a source, and which Pillow operations
  were applied to it since.
\<close>

datatype pixels =
    Source nat
  | ToRGB pixels
  | Rotated int pixels
  | Thumbnail pixels

record image =
  mode :: mode
  width :: nat
  height :: nat
  pixels :: pixels

datatype format = PNG | JPEG | Other string

text \<open>
  A file is either something Pillow cannot decode, or a picture with the encoding it was
  written in and the \<open>quality\<close> argument of the save, if one was given.
\<close>

datatype file_content = Blob | Picture format "int option" image

datatype exn =
    FileNotFoundError
  | UnidentifiedImageError
  | ValueError
  | OSError
  | TypeError
  | AttributeError
  | UnboundLocalError
  | SystemExit

subsection \<open>The recognition engine and CubeCobra\<close>

text \<open>
  The instruction text of a call, by the template it was built from and the values
  interpolated into it.
\<close>

datatype prompt =
    OrientationPrompt
  | ExtractionPrompt "string list option"
  | MissedFocusPrompt nat "string list" int
  | ValidationPrompt nat "string list" "string list"

datatype call = Call prompt file_content

text \<open>
  What \<open>client.responses.parse\<close> does on one call: it raises, or its response carries no
  parsed output, or a parsed \<open>CardExtractionResult\<close> (names, confidence, notes), or a parsed
  \<open>OrientationResult\<close> (rotation, confidence, reasoning).
\<close>

datatype reply =
    Raises
  | Parsed_None
  | Parsed_Cards "string list" string "string option"
  | Parsed_Orientation int string "string option"

text \<open>
  One entry of \<open>cube_data['cards']['mainboard']\<close>, by the branch of the loop in
  \<open>fetch_cubecobra_list\<close> it takes: not a dict; a dict whose \<open>details\<close> is a dict with a
  \<open>name\<close>; a dict with a \<open>name\<close> of its own; a dict with neither and no \<open>details\<close>, with a dict
  for \<open>details\<close>, or with a \<open>details\<close> that is not a dict.
\<close>

datatype card_json =
    NotADict
  | DetailsName string
  | DirectName string
  | NoDetails
  | DetailsWithoutName
  | DetailsNotADict

text \<open>
  The outcome of the request to CubeCobra: the request fails (\<open>requests.RequestException\<close>:
  transport, HTTP status, undecodable body); the body lacks \<open>cards\<close> or \<open>mainboard\<close>
  (\<open>KeyError\<close>); \<open>cards\<close> or \<open>mainboard\<close> has a type that cannot be indexed or iterated, such
  as \<open>null\<close> (\<open>TypeError\<close>); or the entries of the mainboard.
\<close>

datatype cube_response =
    RequestFailed
  | MissingKey
  | WrongType
  | Mainboard "card_json list"

subsection \<open>The world\<close>

record world =
  files :: "string \<rightharpoonup> file_content"
  engine :: "nat \<Rightarrow> reply"
  calls :: "call list"
  cubecobra :: "string \<Rightarrow> cube_response"
  pil_extension :: "string \<rightharpoonup> string"
  pil_writable :: "string \<Rightarrow> mode \<Rightarrow> bool"
  pil_bbox :: "int \<Rightarrow> nat \<times> nat \<Rightarrow> nat \<times> nat"
  pil_thumbnail :: "nat \<times> nat \<Rightarrow> int \<times> int \<Rightarrow> exn + nat \<times> nat"
  config :: config

text \<open>
  \<open>engine w k\<close> is the reply to the \<open>k\<close>-th call made to the engine (counting from 0), and
  \<open>calls w\<close> the calls made so far. \<open>pil_extension\<close> and \<open>pil_writable\<close> are the extensions
  and modes of the formats Pillow has registered besides PNG and JPEG; \<open>pil_bbox\<close> is the
  canvas of a rotation by an angle that is not a multiple of 90 degrees, \<open>pil_thumbnail\<close>
  the size \<open>Image.thumbnail\<close> computes.
\<close>

definition Image_open :: "world \<Rightarrow> string \<Rightarrow> exn + image" where
  "Image_open w p =
     (case files w p of
        None \<Rightarrow> Inl FileNotFoundError
      | Some Blob \<Rightarrow> Inl UnidentifiedImageError
      | Some (Picture f q img) \<Rightarrow> Inr img)"

definition extension_format :: "world \<Rightarrow> string \<Rightarrow> format option" where
  "extension_format w ext =
     (if ext \<in> set [''.jpg'', ''.jpeg''] then Some JPEG
      else if ext = ''.png'' then Some PNG
      else if ext = [] then None
      else map_option Other (pil_extension w ext))"

definition writable :: "world \<Rightarrow> format \<Rightarrow> mode \<Rightarrow> bool" where
  "writable w f m =
     (case f of
        JPEG \<Rightarrow> m \<in> set [RGB, L, CMYK]
      | PNG \<Rightarrow> m \<noteq> CMYK
      | Other n \<Rightarrow> pil_writable w n m)"

text \<open>
  \<open>img.save(p, format, quality=...)\<close>: without a format argument the format comes from the
  extension of \<open>p\<close>, and an unregistered extension raises \<open>ValueError\<close>; a mode the format
  cannot store raises \<open>OSError\<close>.
\<close>

definition Image_save :: "world \<Rightarrow> image \<Rightarrow> string \<Rightarrow> format option \<Rightarrow> int option \<Rightarrow> exn + world" where
  "Image_save w img p fmt quality =
     (case (case fmt of Some f \<Rightarrow> Some f
                      | None \<Rightarrow> extension_format w (py_lower (splitext_ext p))) of
        None \<Rightarrow> Inl ValueError
      | Some f \<Rightarrow>
          if writable w f (mode img)
          then Inr (w\<lparr>files := (files w)(p \<mapsto> Picture f quality img)\<rparr>)
          else Inl OSError)"

text \<open>\<open>img.convert('RGB')\<close>.\<close>

definition Image_convert_RGB :: "image \<Rightarrow> image" where
  "Image_convert_RGB img = img\<lparr>mode := RGB, pixels := ToRGB (pixels img)\<rparr>"

text \<open>
  \<open>img.rotate(angle, expand=True)\<close>: a rotation by 90 or 270 degrees is a transposition
  and swaps width and height, one by 0 or 180 degrees keeps them, any other angle expands
  the canvas to the bounding box.
\<close>

definition Image_rotate :: "world \<Rightarrow> image \<Rightarrow> int \<Rightarrow> image" where
  "Image_rotate w img angle =
     (let a = angle mod 360;
          (x, y) = (if a = 0 \<or> a = 180 then (width img, height img)
                    else if a = 90 \<or> a = 270 then (height img, width img)
                    else pil_bbox w a (width img, height img))
      in img\<lparr>width := x, height := y, pixels := Rotated a (pixels img)\<rparr>)"

text \<open>\<open>img.thumbnail(max_size, LANCZOS)\<close>.\<close>

definition Image_thumbnail :: "world \<Rightarrow> image \<Rightarrow> int \<times> int \<Rightarrow> exn + image" where
  "Image_thumbnail w img max_size =
     (case pil_thumbnail w (width img, height img) max_size of
        Inl e \<Rightarrow> Inl e
      | Inr (x, y) \<Rightarrow> Inr (img\<lparr>width := x, height := y, pixels := Thumbnail (pixels img)\<rparr>))"

definition os_path_exists :: "world \<Rightarrow> string \<Rightarrow> bool" where
  "os_path_exists w p = (files w p \<noteq> None)"

definition os_remove :: "world \<Rightarrow> string \<Rightarrow> exn + world" where
  "os_remove w p =
     (case files w p of
        None \<Rightarrow> Inl FileNotFoundError
      | Some f \<Rightarrow> Inr (w\<lparr>files := (files w)(p := None)\<rparr>))"

subsection \<open>The methods of \<open>ImageProcessor\<close>\<close>

text \<open>
  The loop of \<open>fetch_cubecobra_list\<close> over the mainboard. Printing the keys of a
  \<open>details\<close> that is not a dict raises \<open>AttributeError\<close>.
\<close>

fun collect_names :: "card_json list \<Rightarrow> string list \<Rightarrow> exn + string list" where
  "collect_names [] card_names = Inr card_names"
| "collect_names (entry # cards) card_names =
     (case entry of
        NotADict \<Rightarrow> collect_names cards card_names
      | DetailsName n \<Rightarrow> collect_names cards (card_names @ [n])
      | DirectName n \<Rightarrow> collect_names cards (card_names @ [n])
      | NoDetails \<Rightarrow> collect_names cards card_names
      | DetailsWithoutName \<Rightarrow> collect_names cards card_names
      | DetailsNotADict \<Rightarrow> Inl AttributeError)"

text \<open>
  \<open>fetch_cubecobra_list\<close> catches \<open>requests.RequestException\<close>, \<open>KeyError\<close> and
  \<open>ValueError\<close> and returns \<open>None\<close> for them; any other exception leaves the method.
\<close>

definition fetch_cubecobra_list :: "world \<Rightarrow> string \<Rightarrow> exn + string list option" where
  "fetch_cubecobra_list w cube_id =
     (case cubecobra w cube_id of
        RequestFailed \<Rightarrow> Inr None
      | MissingKey \<Rightarrow> Inr None
      | WrongType \<Rightarrow> Inl TypeError
      | Mainboard cards \<Rightarrow>
          (case collect_names cards [] of
             Inl e \<Rightarrow> Inl e
           | Inr card_names \<Rightarrow> Inr (Some (sort (remdups card_names)))))"

text \<open>\<open>encode_image\<close> reads the bytes of the file; the encoding stands for them.\<close>

definition encode_image :: "world \<Rightarrow> string \<Rightarrow> exn + file_content" where
  "encode_image w image_path =
     (case files w image_path of None \<Rightarrow> Inl FileNotFoundError | Some f \<Rightarrow> Inr f)"

definition converted_png :: "string \<Rightarrow> string" where
  "converted_png image_path =
     path_sibling image_path (path_stem image_path @ ''_converted.png'')"

definition converted_jpg :: "string \<Rightarrow> string" where
  "converted_jpg image_path =
     path_sibling image_path (path_stem image_path @ ''_converted.jpg'')"

definition convert_to_compatible_format :: "world \<Rightarrow> string \<Rightarrow> world \<times> string" where
  "convert_to_compatible_format w image_path =
     (let file_extension = py_lower (path_suffix image_path) in
      if file_extension \<in> set [''.jpg'', ''.jpeg'', ''.png''] then (w, image_path)
      else
        (case Image_open w image_path of
           Inl e \<Rightarrow> (w, image_path)
         | Inr img \<Rightarrow>
             if mode img \<in> set [RGBA, P] then
               (case Image_save w img (converted_png image_path) (Some PNG) None of
                  Inl e \<Rightarrow> (w, image_path)
                | Inr w' \<Rightarrow> (w', converted_png image_path))
             else
               (let img' = (if mode img \<noteq> RGB then Image_convert_RGB img else img);
                    quality = get_int (config w) ''image_processing'' ''image_quality'' 95
                in case Image_save w img' (converted_jpg image_path) (Some JPEG) (Some quality) of
                     Inl e \<Rightarrow> (w, image_path)
                   | Inr w' \<Rightarrow> (w', converted_jpg image_path))))"

text \<open>
  The \<open>except\<close> branch of \<open>detect_image_orientation\<close>: it removes the converted file,
  then formats \<open>response\<close>, which is unbound unless the call to the engine had returned, and
  only then reaches \<open>raise SystemExit\<close>. The \<open>return 0\<close> after it is never reached.
\<close>

definition cleanup_converted :: "world \<Rightarrow> string \<Rightarrow> string \<Rightarrow> world" where
  "cleanup_converted w image_path processed_image_path =
     (if processed_image_path \<noteq> image_path
      then (case os_remove w processed_image_path of Inl e \<Rightarrow> w | Inr w' \<Rightarrow> w')
      else w)"

definition detection_failed :: "world \<Rightarrow> string \<Rightarrow> string \<Rightarrow> bool \<Rightarrow> world \<times> (exn + int)" where
  "detection_failed w image_path processed_image_path response_bound =
     (cleanup_converted w image_path processed_image_path,
      if response_bound then Inl SystemExit else Inl UnboundLocalError)"

definition detect_image_orientation :: "world \<Rightarrow> string \<Rightarrow> world \<times> (exn + int)" where
  "detect_image_orientation w image_path =
     (let (w1, processed_image_path) = convert_to_compatible_format w image_path in
      case encode_image w1 processed_image_path of
        Inl e \<Rightarrow> detection_failed w1 image_path processed_image_path False
      | Inr base64_image \<Rightarrow>
          (let w2 = w1\<lparr>calls := calls w1 @ [Call OrientationPrompt base64_image]\<rparr> in
           case engine w1 (length (calls w1)) of
             Parsed_Orientation rotation_needed confidence reasoning \<Rightarrow>
               (cleanup_converted w2 image_path processed_image_path, Inr rotation_needed)
           | Parsed_None \<Rightarrow> detection_failed w2 image_path processed_image_path True
           | _ \<Rightarrow> detection_failed w2 image_path processed_image_path False))"

text \<open>The \<open>quality\<close> argument of a save: given for the JPEG suffixes only.\<close>

definition save_kwargs :: "world \<Rightarrow> string \<Rightarrow> int option" where
  "save_kwargs w path =
     (if py_lower (path_suffix path) \<in> set [''.jpg'', ''.jpeg'']
      then Some (get_int (config w) ''image_processing'' ''image_quality'' 95)
      else None)"

definition rotated_path :: "string \<Rightarrow> string" where
  "rotated_path image_path =
     path_sibling image_path (path_stem image_path @ ''_rotated'' @ path_suffix image_path)"

definition rotate_and_save_image :: "world \<Rightarrow> string \<Rightarrow> int \<Rightarrow> string option \<Rightarrow> world \<times> string" where
  "rotate_and_save_image w image_path rotation_degrees output_path =
     (if rotation_degrees = 0 then (w, image_path)
      else
        (case Image_open w image_path of
           Inl e \<Rightarrow> (w, image_path)
         | Inr img \<Rightarrow>
             (let pil_rotation = (360 - rotation_degrees) mod 360;
                  rotated_img = Image_rotate w img pil_rotation;
                  output_path' =
                    (case output_path of None \<Rightarrow> rotated_path image_path | Some p \<Rightarrow> p)
              in case Image_save w rotated_img output_path' None (save_kwargs w output_path') of
                   Inl e \<Rightarrow> (w, image_path)
                 | Inr w' \<Rightarrow> (w', output_path'))))"

definition resized_path :: "string \<Rightarrow> string" where
  "resized_path image_path =
     path_sibling image_path (path_stem image_path @ ''_resized'' @ path_suffix image_path)"

text \<open>The bound of the Resizer: the argument, or the configured one when it is \<open>None\<close>.\<close>

definition resolve_max_size :: "world \<Rightarrow> (int \<times> int) option \<Rightarrow> int \<times> int" where
  "resolve_max_size w max_size =
     (case max_size of
        None \<Rightarrow> (get_int (config w) ''image_processing'' ''max_image_width'' 2048,
                 get_int (config w) ''image_processing'' ''max_image_height'' 2048)
      | Some m \<Rightarrow> m)"

definition resize_image_if_needed ::
  "world \<Rightarrow> string \<Rightarrow> (int \<times> int) option \<Rightarrow> world \<times> (exn + string)" where
  "resize_image_if_needed w image_path max_size =
     (let max_size' = resolve_max_size w max_size
      in case Image_open w image_path of
           Inl e \<Rightarrow> (w, Inl e)
         | Inr img \<Rightarrow>
             if int (width img) \<le> fst max_size' \<and> int (height img) \<le> snd max_size'
             then (w, Inr image_path)
             else
               (case Image_thumbnail w img max_size' of
                  Inl e \<Rightarrow> (w, Inl e)
                | Inr img' \<Rightarrow>
                    (case Image_save w img' (resized_path image_path) None
                            (save_kwargs w image_path) of
                       Inl e \<Rightarrow> (w, Inl e)
                     | Inr w' \<Rightarrow> (w', Inr (resized_path image_path)))))"

definition single_pass_extraction ::
  "world \<Rightarrow> file_content \<Rightarrow> prompt \<Rightarrow> string \<Rightarrow> world \<times> string list" where
  "single_pass_extraction w base64_image prompt image_path =
     (let w' = w\<lparr>calls := calls w @ [Call prompt base64_image]\<rparr> in
      case engine w (length (calls w)) of
        Parsed_Cards card_names confidence_level notes \<Rightarrow> (w', card_names)
      | Parsed_None \<Rightarrow> (w', [])
      | _ \<Rightarrow> (w', []))"

text \<open>
  \<open>all_cards\<close> is a Python set. It is kept as a list without duplicates; \<open>set_update\<close> is
  \<open>all_cards.update(xs)\<close>, the length of the list is \<open>len(all_cards)\<close>, and
  \<open>list(all_cards)\<close> is the list itself: Python leaves the order of that list open, and
  nothing below depends on it.
\<close>

definition set_update :: "string list \<Rightarrow> string list \<Rightarrow> string list" where
  "set_update all_cards xs = remdups (all_cards @ xs)"

text \<open>
  The comparison \<open>found_cards < expected_total * 0.9\<close>, on the reals. Python rounds the
  product to a binary float; the rounded product lies on the same side of every integer as
  the exact one as long as \<open>expected_total\<close> stays below \<open>2^49\<close> in absolute value, so the
  comparison has the same outcome.
\<close>

definition below_threshold :: "nat \<Rightarrow> int \<Rightarrow> bool" where
  "below_threshold found_cards expected_total =
     (real found_cards < real_of_int expected_total * 0.9)"

definition multi_pass_extraction ::
  "world \<Rightarrow> file_content \<Rightarrow> prompt \<Rightarrow> string list option \<Rightarrow> string \<Rightarrow> world \<times> string list" where
  "multi_pass_extraction w base64_image base_prompt cube_card_list image_path =
     (let (w1, first_pass_cards) = single_pass_extraction w base64_image base_prompt image_path;
          all_cards = set_update [] first_pass_cards
      in
        if truthy cube_card_list \<and> length first_pass_cards > 0 then
          (let expected_total = get_expected_deck_size (config w1);
               missed_focus_prompt =
                 MissedFocusPrompt (length first_pass_cards) first_pass_cards expected_total;
               (w2, second_pass_cards) =
                 single_pass_extraction w1 base64_image missed_focus_prompt image_path;
               all_cards = set_update all_cards second_pass_cards
           in
             if truthy cube_card_list \<and> get_enable_validation_pass (config w2) then
               (let found_cards = length all_cards in
                if below_threshold found_cards expected_total then
                  (let unfound_cards =
                         filter (\<lambda>card. card \<notin> set all_cards) (the cube_card_list)
                   in
                     if unfound_cards \<noteq> [] then
                       (let validation_prompt =
                              ValidationPrompt found_cards (sort all_cards) unfound_cards;
                            (w3, third_pass_cards) =
                              single_pass_extraction w2 base64_image validation_prompt image_path
                        in (w3, set_update all_cards third_pass_cards))
                     else (w2, all_cards))
                else (w2, all_cards))
             else (w2, all_cards))
        else (w1, all_cards))"

text \<open>The \<open>finally\<close> block of \<open>extract_card_names\<close>.\<close>

fun cleanup :: "world \<Rightarrow> string list \<Rightarrow> world" where
  "cleanup w [] = w"
| "cleanup w (file_path # rest) =
     (if os_path_exists w file_path
      then (case os_remove w file_path of Inl e \<Rightarrow> cleanup w rest | Inr w' \<Rightarrow> cleanup w' rest)
      else cleanup w rest)"

text \<open>
  The prompt of the first pass: the base prompt, and the first \<open>max_cards_in_prompt\<close>
  entries of the cube list when there is one.
\<close>

definition extraction_prompt :: "world \<Rightarrow> string list option \<Rightarrow> prompt" where
  "extraction_prompt w cube_card_list =
     (let max_cards_in_prompt = get_int (config w) ''cubecobra'' ''max_cards_in_prompt'' 360
      in ExtractionPrompt
           (if truthy cube_card_list
            then Some (py_slice_to max_cards_in_prompt (the cube_card_list))
            else None))"

text \<open>The body of the \<open>try\<close> statement of \<open>extract_card_names\<close>.\<close>

definition run_passes ::
  "world \<Rightarrow> file_content \<Rightarrow> prompt \<Rightarrow> string list option \<Rightarrow> string \<Rightarrow> bool
     \<Rightarrow> world \<times> string list" where
  "run_passes w base64_image prompt cube_card_list image_path use_multi_pass =
     (let use_multi_pass_config = get_use_multi_pass_detection (config w);
          actual_multi_pass = (use_multi_pass \<and> use_multi_pass_config)
      in if actual_multi_pass
         then multi_pass_extraction w base64_image prompt cube_card_list image_path
         else single_pass_extraction w base64_image prompt image_path)"

definition extract_card_names ::
  "world \<Rightarrow> string \<Rightarrow> string option \<Rightarrow> bool \<Rightarrow> world \<times> (exn + string list)" where
  "extract_card_names w image_path cubecobra_id use_multi_pass =
     (let (w1, compatible_image_path) = convert_to_compatible_format w image_path in
      case resize_image_if_needed w1 compatible_image_path None of
        (w2, Inl e) \<Rightarrow> (w2, Inl e)
      | (w2, Inr processed_image_path) \<Rightarrow>
          (case encode_image w2 processed_image_path of
             Inl e \<Rightarrow> (w2, Inl e)
           | Inr base64_image \<Rightarrow>
               (let cleanup_files =
                      (if compatible_image_path \<noteq> image_path then [compatible_image_path] else [])
                      @ (if processed_image_path \<noteq> compatible_image_path
                         then [processed_image_path] else [])
                in case (if truthy cubecobra_id
                         then fetch_cubecobra_list w2 (the cubecobra_id) else Inr None) of
                     Inl e \<Rightarrow> (w2, Inl e)
                   | Inr cube_card_list \<Rightarrow>
                       (let prompt = extraction_prompt w2 cube_card_list;
                            (w3, result) =
                              run_passes w2 base64_image prompt cube_card_list image_path
                                use_multi_pass
                        in (cleanup w3 cleanup_files, Inr result)))))"

record ExtractionResult =
  card_names :: "string list"
  oriented_image_path :: string

definition oriented_path :: "string \<Rightarrow> string" where
  "oriented_path image_path =
     path_sibling image_path (path_stem image_path @ ''_oriented'' @ path_suffix image_path)"

definition extract_card_names_with_orientation ::
  "world \<Rightarrow> string \<Rightarrow> string option \<Rightarrow> bool \<Rightarrow> world \<times> (exn + ExtractionResult)" where
  "extract_card_names_with_orientation w image_path cubecobra_id use_multi_pass =
     (if py_in ''_oriented'' (path_stem image_path) then
        (case extract_card_names w image_path cubecobra_id use_multi_pass of
           (w', Inl e) \<Rightarrow> (w', Inl e)
         | (w', Inr names) \<Rightarrow>
             (w', Inr \<lparr>card_names = names, oriented_image_path = image_path\<rparr>))
      else
        (case detect_image_orientation w image_path of
           (w1, Inl e) \<Rightarrow> (w1, Inl e)
         | (w1, Inr rotation_needed) \<Rightarrow>
             (let (w2, oriented_image_path) =
                    (if rotation_needed \<noteq> 0
                     then rotate_and_save_image w1 image_path rotation_needed
                            (Some (oriented_path image_path))
                     else (w1, image_path))
              in case extract_card_names w2 oriented_image_path cubecobra_id use_multi_pass of
                   (w3, Inl e) \<Rightarrow> (w3, Inl e)
                 | (w3, Inr names) \<Rightarrow>
                     (w3, Inr \<lparr>card_names = names,
                               oriented_image_path = oriented_image_path\<rparr>))))"

subsection \<open>Observing a run\<close>

text \<open>
  The names a reply contributes to a pass, the result of the \<open>k\<close>-th pass of an invocation
  that starts in \<open>w\<close> (its \<open>k\<close>-th call to the engine, counting from 0), the calls an
  invocation has added, and the number of passes it has run.
\<close>

definition reply_names :: "reply \<Rightarrow> string list" where
  "reply_names r = (case r of Parsed_Cards ns c n \<Rightarrow> ns | _ \<Rightarrow> [])"

definition pass_result :: "world \<Rightarrow> nat \<Rightarrow> string list" where
  "pass_result w k = reply_names (engine w (length (calls w) + k))"

definition new_calls :: "world \<Rightarrow> world \<Rightarrow> call list" where
  "new_calls w w' = drop (length (calls w)) (calls w')"

definition passes_run :: "world \<Rightarrow> world \<Rightarrow> nat" where
  "passes_run w w' = length (new_calls w w')"

text \<open>The value of \<open>all_cards\<close> after the first \<open>k\<close> passes.\<close>

primrec accumulated :: "world \<Rightarrow> nat \<Rightarrow> string list" where
  "accumulated w 0 = []"
| "accumulated w (Suc k) = set_update (accumulated w k) (pass_result w k)"

text \<open>The guards of the third pass, as \<open>multi_pass_extraction\<close> tests them.\<close>

definition pass3_condition :: "world \<Rightarrow> string list option \<Rightarrow> bool" where
  "pass3_condition w cube_card_list =
     (truthy cube_card_list \<and> pass_result w 0 \<noteq> []
      \<and> get_enable_validation_pass (config w)
      \<and> below_threshold (length (accumulated w 2)) (get_expected_deck_size (config w))
      \<and> filter (\<lambda>c. c \<notin> set (accumulated w 2)) (the cube_card_list) \<noteq> [])"

definition is_orientation_call :: "call \<Rightarrow> bool" where
  "is_orientation_call c = (case c of Call OrientationPrompt f \<Rightarrow> True | _ \<Rightarrow> False)"

text \<open>The rotation a reply delivers to \<open>detect_image_orientation\<close>, if any.\<close>

definition reply_rotation :: "reply \<Rightarrow> int option" where
  "reply_rotation r = (case r of Parsed_Orientation d c n \<Rightarrow> Some d | _ \<Rightarrow> None)"

text \<open>
  Applying a rotation fails: opening the image raises, or saving the rotated image to the
  output path raises.
\<close>

definition rotation_fails :: "world \<Rightarrow> string \<Rightarrow> int \<Rightarrow> string \<Rightarrow> bool" where
  "rotation_fails w image_path rotation_degrees output_path =
     (case Image_open w image_path of
        Inl e \<Rightarrow> True
      | Inr img \<Rightarrow>
          (case Image_save w (Image_rotate w img ((360 - rotation_degrees) mod 360))
                  output_path None (save_kwargs w output_path) of
             Inl e \<Rightarrow> True
           | Inr w' \<Rightarrow> False))"

text \<open>
  Two worlds with the same engine, CubeCobra, Pillow and configuration: they differ in
  their files and in the calls made so far, at most.
\<close>

definition same_platform :: "world \<Rightarrow> world \<Rightarrow> bool" where
  "same_platform w w' =
     (engine w' = engine w \<and> cubecobra w' = cubecobra w
      \<and> pil_extension w' = pil_extension w \<and> pil_writable w' = pil_writable w
      \<and> pil_bbox w' = pil_bbox w \<and> pil_thumbnail w' = pil_thumbnail w
      \<and> config w' = config w)"

text \<open>The paths at which \<open>extract_card_names\<close> may write a temporary file.\<close>

definition temp_paths :: "string \<Rightarrow> string set" where
  "temp_paths image_path =
     {converted_png image_path, converted_jpg image_path, resized_path image_path,
      resized_path (converted_png image_path), resized_path (converted_jpg image_path)}"

text \<open>The result of the composed entry point, given the result of the extraction.\<close>

definition with_path ::
  "string \<Rightarrow> world \<times> (exn + string list) \<Rightarrow> world \<times> (exn + ExtractionResult)" where
  "with_path path r =
     (case r of
        (w, Inl e) \<Rightarrow> (w, Inl e)
      | (w, Inr names) \<Rightarrow> (w, Inr \<lparr>card_names = names, oriented_image_path = path\<rparr>))"

subsection \<open>Example worlds\<close>

text \<open>
  A world with the given files, engine and CubeCobra replies: no call made yet, the
  default configuration, and a Pillow with no format besides PNG and JPEG.
\<close>

definition world_of ::
  "(string \<rightharpoonup> file_content) \<Rightarrow> (nat \<Rightarrow> reply) \<Rightarrow> (string \<Rightarrow> cube_response) \<Rightarrow> world" where
  "world_of fs eng cc =
     \<lparr>files = fs, engine = eng, calls = [], cubecobra = cc,
      pil_extension = Map.empty, pil_writable = (\<lambda>f m. False),
      pil_bbox = (\<lambda>a s. s), pil_thumbnail = (\<lambda>s m. Inr s), config = Map.empty\<rparr>"

definition photo :: "mode \<Rightarrow> image" where
  "photo m = \<lparr>mode = m, width = 1200, height = 800, pixels = Source 0\<rparr>"

text \<open>An engine that finds names in three passes, two of them differing in case only.\<close>

definition three_pass_engine :: "nat \<Rightarrow> reply" where
  "three_pass_engine k =
     (if k = 0 then Parsed_Cards [''Lightning Bolt'', ''lightning bolt''] ''high'' None
      else if k = 1 then Parsed_Cards [''Counterspell''] ''medium'' None
      else if k = 2 then Parsed_Cards [''Opt''] ''low'' None
      else Raises)"

definition three_pass_world :: world where
  "three_pass_world =
     world_of [''deck.jpg'' \<mapsto> Picture JPEG None (photo RGB)] three_pass_engine
       (\<lambda>i. RequestFailed)"

definition three_pass_cube :: "string list option" where
  "three_pass_cube = Some [''Counterspell'', ''Lightning Bolt'', ''Opt'', ''Shock'']"

text \<open>An engine that finds the one card of a one-card reference list in the first pass.\<close>

definition all_found_engine :: "nat \<Rightarrow> reply" where
  "all_found_engine k = (if k = 0 then Parsed_Cards [''Opt''] ''high'' None else Parsed_None)"

definition all_found_world :: world where
  "all_found_world =
     world_of [''deck.jpg'' \<mapsto> Picture JPEG None (photo RGB)] all_found_engine
       (\<lambda>i. RequestFailed)"

text \<open>A WebP photo and an engine that raises on every call.\<close>

definition failing_engine_world :: world where
  "failing_engine_world =
     world_of [''deck.webp'' \<mapsto> Picture (Other ''WEBP'') None (photo RGB)] (\<lambda>k. Raises)
       (\<lambda>i. RequestFailed)"

text \<open>
  An engine that asks for a quarter turn clockwise and then reads one card; a JPEG photo,
  and a PNG with an alpha channel stored under a \<open>.jpg\<close> name.
\<close>

definition quarter_turn_engine :: "nat \<Rightarrow> reply" where
  "quarter_turn_engine k =
     (if k = 0 then Parsed_Orientation 90 ''high'' None
      else if k = 1 then Parsed_Cards [''Opt''] ''high'' None
      else Raises)"

definition sideways_world :: world where
  "sideways_world =
     world_of [''deck.jpg'' \<mapsto> Picture JPEG None (photo RGB)] quarter_turn_engine
       (\<lambda>i. RequestFailed)"

definition misnamed_world :: world where
  "misnamed_world =
     world_of [''deck.jpg'' \<mapsto> Picture PNG None (photo RGBA)] quarter_turn_engine
       (\<lambda>i. RequestFailed)"

text \<open>A photo that carries the marker in its name.\<close>

definition oriented_world :: world where
  "oriented_world =
     world_of [''deck_oriented.jpg'' \<mapsto> Picture JPEG None (photo RGB)] three_pass_engine
       (\<lambda>i. RequestFailed)"

text \<open>A GIF with a palette.\<close>

definition palette_world :: world where
  "palette_world =
     world_of [''deck.gif'' \<mapsto> Picture (Other ''GIF'') None (photo P)] three_pass_engine
       (\<lambda>i. RequestFailed)"

text \<open>A greyscale TIFF with an alpha channel.\<close>

definition grey_alpha_world :: world where
  "grey_alpha_world =
     world_of [''deck.tiff'' \<mapsto> Picture (Other ''TIFF'') None (photo LA)] three_pass_engine
       (\<lambda>i. RequestFailed)"

text \<open>A WebP photo, and a CubeCobra whose reply has \<open>null\<close> for the mainboard.\<close>

definition null_mainboard_world :: world where
  "null_mainboard_world =
     world_of [''deck.webp'' \<mapsto> Picture (Other ''WEBP'') None (photo RGB)] three_pass_engine
       (\<lambda>i. WrongType)"

section \<open>Properties\<close>

subsection \<open>Paths\<close>

lemma split_sep_not_Nil: "split_sep s \<noteq> []"
  by (induction s) (auto split: list.splits)

lemma split_sep_append:
  "split_sep (a @ CHR ''/'' # b) = split_sep a @ split_sep b"
  by (induction a) (auto split: list.splits simp: split_sep_not_Nil)

lemma split_sep_no_sep: "CHR ''/'' \<notin> set n \<Longrightarrow> split_sep n = [n]"
  by (induction n) auto

lemma split_sep_components: "x \<in> set (split_sep s) \<Longrightarrow> CHR ''/'' \<notin> set x"
  by (induction s arbitrary: x) (auto split: list.splits if_splits)

lemma join_sep_snoc: "xs \<noteq> [] \<Longrightarrow> join_sep (xs @ [n]) = join_sep xs @ CHR ''/'' # n"
  by (induction xs rule: join_sep.induct) auto

lemma path_root_cases: "path_root s = [] \<or> path_root s = ''/'' \<or> path_root s = ''//''"
  by (simp add: path_root_def)

lemma split_sep_sibling:
  assumes "CHR ''/'' \<notin> set n"
  shows "\<exists>ys. split_sep (path_sibling s n) = ys @ [n]"
proof (cases "butlast (path_tail s) = []")
  case True
  have "split_sep n = [n]" "split_sep (CHR ''/'' # n) = [[], n]"
    "split_sep (CHR ''/'' # CHR ''/'' # n) = [[], [], n]"
    using assms by (simp_all add: split_sep_no_sep)
  then show ?thesis
    using True path_root_cases [of s] by (auto simp: path_sibling_def)
next
  case False
  have "path_sibling s n = (path_root s @ join_sep (butlast (path_tail s))) @ CHR ''/'' # n"
    using False by (simp add: path_sibling_def join_sep_snoc)
  then show ?thesis
    using assms by (simp add: split_sep_append split_sep_no_sep del: append_assoc)
qed

lemma path_name_sibling: "valid_name n \<Longrightarrow> path_name (path_sibling s n) = n"
proof -
  assume v: "valid_name n"
  then obtain ys where "split_sep (path_sibling s n) = ys @ [n]"
    using split_sep_sibling [of n s] by (auto simp: valid_name_def)
  then show ?thesis
    using v by (simp add: path_name_def path_tail_def valid_name_def)
qed

lemma rfind_dot_Some:
  assumes "rfind_dot n = Some i"
  shows "i < length n \<and> n ! i = CHR ''.''"
proof -
  let ?k = "length (takeWhile (\<lambda>c. c \<noteq> CHR ''.'') (rev n))"
  have mem: "CHR ''.'' \<in> set (rev n)" and i: "i = length n - 1 - ?k"
    using assms by (auto simp: rfind_dot_def split: if_splits)
  have "takeWhile (\<lambda>c. c \<noteq> CHR ''.'') (rev n) \<noteq> rev n"
    using mem by (auto simp: takeWhile_eq_all_conv)
  then have "?k \<noteq> length (rev n)"
    by (metis takeWhile_eq_take take_all order_refl)
  then have k: "?k < length (rev n)"
    using length_takeWhile_le [of "\<lambda>c. c \<noteq> CHR ''.''" "rev n"] by linarith
  then have "rev n ! ?k = CHR ''.''"
    using nth_length_takeWhile [of "\<lambda>c. c \<noteq> CHR ''.''" "rev n"] by simp
  moreover have "rev n ! ?k = n ! (length n - Suc ?k)"
    using k by (simp add: rev_nth)
  ultimately show ?thesis
    using k i by auto
qed

lemma name_stem_suffix: "name_stem n @ name_suffix n = n"
  by (simp add: name_stem_def name_suffix_def split: option.splits)

lemma name_suffix_dot: "name_suffix n = [] \<or> (\<exists>e. name_suffix n = CHR ''.'' # e)"
proof (cases "rfind_dot n")
  case None
  then show ?thesis by (simp add: name_suffix_def)
next
  case (Some i)
  then have "i < length n" "n ! i = CHR ''.''"
    using rfind_dot_Some by auto
  then have "drop i n = CHR ''.'' # drop (Suc i) n"
    by (metis Cons_nth_drop_Suc)
  then show ?thesis
    using Some by (simp add: name_suffix_def)
qed

lemma name_stem_subset: "set (name_stem n) \<subseteq> set n"
  by (auto simp: name_stem_def split: option.splits dest: in_set_takeD)

lemma path_name_no_sep: "CHR ''/'' \<notin> set (path_name s)"
proof (cases "path_tail s = []")
  case True
  then show ?thesis by (simp add: path_name_def)
next
  case False
  then have "last (path_tail s) \<in> set (path_tail s)" by simp
  then have "last (path_tail s) \<in> set (split_sep s)" by (simp add: path_tail_def)
  then show ?thesis
    using False split_sep_components by (simp add: path_name_def)
qed

lemma path_stem_no_sep: "CHR ''/'' \<notin> set (path_stem s)"
  using name_stem_subset [of "path_name s"] path_name_no_sep [of s]
  by (auto simp: path_stem_def)

lemma path_stem_suffix: "path_stem s @ path_suffix s = path_name s"
  by (simp add: path_stem_def path_suffix_def name_stem_suffix)

lemma path_suffix_dot: "path_suffix s = [] \<or> (\<exists>e. path_suffix s = CHR ''.'' # e)"
  by (simp add: path_suffix_def name_suffix_dot)

lemma path_suffix_no_sep: "CHR ''/'' \<notin> set (path_suffix s)"
  using path_stem_suffix [of s] path_name_no_sep [of s]
  by (metis Un_iff set_append)

lemma rfind_dot_ext:
  assumes "CHR ''.'' \<notin> set e"
  shows "rfind_dot (y @ CHR ''.'' # e) = Some (length y)"
proof -
  have "takeWhile (\<lambda>c. c \<noteq> CHR ''.'') (rev e @ CHR ''.'' # rev y) = rev e"
    using assms by (auto simp: takeWhile_tail)
  then show ?thesis
    by (simp add: rfind_dot_def)
qed

lemma name_stem_ext:
  "CHR ''.'' \<notin> set e \<Longrightarrow> e \<noteq> [] \<Longrightarrow> y \<noteq> [] \<Longrightarrow> name_stem (y @ CHR ''.'' # e) = y"
  by (simp add: name_stem_def rfind_dot_ext)

lemma name_suffix_ext:
  "CHR ''.'' \<notin> set e \<Longrightarrow> e \<noteq> [] \<Longrightarrow> y \<noteq> [] \<Longrightarrow> name_suffix (y @ CHR ''.'' # e) = CHR ''.'' # e"
  by (simp add: name_suffix_def rfind_dot_ext)


lemma valid_stem_append:
  "CHR ''/'' \<notin> set x \<Longrightarrow> 2 \<le> length x \<Longrightarrow> valid_name (path_stem s @ x)"
  using path_stem_no_sep [of s]
  by (cases x; cases "path_stem s") (auto simp: valid_name_def)

lemma path_name_converted_png:
  "path_name (converted_png p) = path_stem p @ ''_converted.png''"
  unfolding converted_png_def by (rule path_name_sibling, rule valid_stem_append) simp_all

lemma path_name_converted_jpg:
  "path_name (converted_jpg p) = path_stem p @ ''_converted.jpg''"
  unfolding converted_jpg_def by (rule path_name_sibling, rule valid_stem_append) simp_all

lemma path_name_resized:
  "path_name (resized_path p) = path_stem p @ ''_resized'' @ path_suffix p"
  unfolding resized_path_def
  by (rule path_name_sibling, rule valid_stem_append) (simp_all add: path_suffix_no_sep)

lemma path_name_oriented:
  "path_name (oriented_path p) = path_stem p @ ''_oriented'' @ path_suffix p"
  unfolding oriented_path_def
  by (rule path_name_sibling, rule valid_stem_append) (simp_all add: path_suffix_no_sep)

lemma converted_png_neq: "converted_png p \<noteq> p"
proof
  assume "converted_png p = p"
  then have "path_stem p @ ''_converted.png'' = path_stem p @ path_suffix p"
    using path_name_converted_png [of p] by (simp add: path_stem_suffix)
  then show False
    using path_suffix_dot [of p] by auto
qed

lemma converted_jpg_neq: "converted_jpg p \<noteq> p"
proof
  assume "converted_jpg p = p"
  then have "path_stem p @ ''_converted.jpg'' = path_stem p @ path_suffix p"
    using path_name_converted_jpg [of p] by (simp add: path_stem_suffix)
  then show False
    using path_suffix_dot [of p] by auto
qed

lemma resized_path_neq: "resized_path p \<noteq> p"
proof
  assume "resized_path p = p"
  then have "path_stem p @ ''_resized'' @ path_suffix p = path_stem p @ path_suffix p"
    using path_name_resized [of p] by (simp add: path_stem_suffix)
  then show False by simp
qed

lemma oriented_path_neq: "oriented_path p \<noteq> p"
proof
  assume "oriented_path p = p"
  then have "path_stem p @ ''_oriented'' @ path_suffix p = path_stem p @ path_suffix p"
    using path_name_oriented [of p] by (simp add: path_stem_suffix)
  then show False by simp
qed

lemma stem_suffix_converted_png:
  "path_stem (converted_png p) = path_stem p @ ''_converted''"
  "path_suffix (converted_png p) = ''.png''"
  using name_stem_ext [of "''png''" "path_stem p @ ''_converted''"]
    name_suffix_ext [of "''png''" "path_stem p @ ''_converted''"]
  by (simp_all add: path_stem_def [of "converted_png p"] path_suffix_def [of "converted_png p"]
      path_name_converted_png)

lemma stem_suffix_converted_jpg:
  "path_stem (converted_jpg p) = path_stem p @ ''_converted''"
  "path_suffix (converted_jpg p) = ''.jpg''"
  using name_stem_ext [of "''jpg''" "path_stem p @ ''_converted''"]
    name_suffix_ext [of "''jpg''" "path_stem p @ ''_converted''"]
  by (simp_all add: path_stem_def [of "converted_jpg p"] path_suffix_def [of "converted_jpg p"]
      path_name_converted_jpg)

lemma resized_converted_png_neq: "resized_path (converted_png p) \<noteq> p"
proof
  assume "resized_path (converted_png p) = p"
  then have "path_stem p @ ''_converted_resized.png'' = path_stem p @ path_suffix p"
    using path_name_resized [of "converted_png p"]
    by (simp add: path_stem_suffix stem_suffix_converted_png)
  then show False
    using path_suffix_dot [of p] by auto
qed

lemma resized_converted_jpg_neq: "resized_path (converted_jpg p) \<noteq> p"
proof
  assume "resized_path (converted_jpg p) = p"
  then have "path_stem p @ ''_converted_resized.jpg'' = path_stem p @ path_suffix p"
    using path_name_resized [of "converted_jpg p"]
    by (simp add: path_stem_suffix stem_suffix_converted_jpg)
  then show False
    using path_suffix_dot [of p] by auto
qed

lemma not_in_temp_paths: "p \<notin> temp_paths p"
  using converted_png_neq [of p] converted_jpg_neq [of p] resized_path_neq [of p]
    resized_converted_png_neq [of p] resized_converted_jpg_neq [of p]
  by (auto simp: temp_paths_def)

lemma py_in_prefix: "py_in sub (sub @ b)"
proof (cases "sub @ b")
  case Nil
  then show ?thesis by simp
next
  case (Cons c cs)
  have "take (length sub) (sub @ b) = sub" by simp
  then show ?thesis
    using Cons by (metis py_in.simps(2))
qed

lemma py_in_append: "py_in sub (a @ sub @ b)"
  by (induction a) (simp_all add: py_in_prefix)

lemma path_sibling_ends: "\<exists>a. path_sibling s n = a @ n"
proof (cases "butlast (path_tail s) = []")
  case True
  then show ?thesis by (simp add: path_sibling_def)
next
  case False
  then have "path_sibling s n = (path_root s @ join_sep (butlast (path_tail s)) @ ''/'') @ n"
    by (simp add: path_sibling_def join_sep_snoc)
  then show ?thesis by blast
qed

lemma oriented_path_marker: "py_in ''_oriented'' (oriented_path p)"
proof -
  obtain a where "oriented_path p = a @ path_stem p @ ''_oriented'' @ path_suffix p"
    unfolding oriented_path_def using path_sibling_ends by blast
  then have "oriented_path p = (a @ path_stem p) @ ''_oriented'' @ path_suffix p"
    by simp
  then show ?thesis
    using py_in_append by metis
qed

subsection \<open>The multi-pass recognizer\<close>

lemma single_pass_extraction_eq:
  "single_pass_extraction w b pr p =
     (w\<lparr>calls := calls w @ [Call pr b]\<rparr>, reply_names (engine w (length (calls w))))"
  by (simp add: single_pass_extraction_def reply_names_def Let_def split: reply.splits)

lemma set_set_update: "set (set_update acc xs) = set acc \<union> set xs"
  by (simp add: set_update_def)

lemma distinct_set_update: "distinct (set_update acc xs)"
  by (simp add: set_update_def)

lemma set_accumulated: "set (accumulated w k) = (\<Union>i<k. set (pass_result w i))"
  by (induction k) (auto simp: set_set_update lessThan_Suc)

lemma accumulated_mono: "j \<le> k \<Longrightarrow> set (accumulated w j) \<subseteq> set (accumulated w k)"
  by (fastforce simp: set_accumulated)

lemma distinct_accumulated: "distinct (accumulated w k)"
  by (cases k) (simp_all add: distinct_set_update)

text \<open>
  The three ways a multi-pass invocation can go: the calls it adds and the names it
  returns.
\<close>

lemma multi_pass_extraction_eq:
  "multi_pass_extraction w b pr cube p =
    (if truthy cube \<and> pass_result w 0 \<noteq> [] then
       if pass3_condition w cube then
         (w\<lparr>calls := calls w @
              [Call pr b,
               Call (MissedFocusPrompt (length (pass_result w 0)) (pass_result w 0)
                       (get_expected_deck_size (config w))) b,
               Call (ValidationPrompt (length (accumulated w 2)) (sort (accumulated w 2))
                       (filter (\<lambda>c. c \<notin> set (accumulated w 2)) (the cube))) b]\<rparr>,
          accumulated w 3)
       else
         (w\<lparr>calls := calls w @
              [Call pr b,
               Call (MissedFocusPrompt (length (pass_result w 0)) (pass_result w 0)
                       (get_expected_deck_size (config w))) b]\<rparr>,
          accumulated w 2)
     else (w\<lparr>calls := calls w @ [Call pr b]\<rparr>, accumulated w 1))"
  by (simp add: multi_pass_extraction_def single_pass_extraction_eq Let_def pass_result_def
      pass3_condition_def numeral_2_eq_2 numeral_3_eq_3)

lemma multi_pass_passes_run:
  "passes_run w (fst (multi_pass_extraction w b pr cube p)) =
     (if truthy cube \<and> pass_result w 0 \<noteq> [] then if pass3_condition w cube then 3 else 2
      else 1)"
  by (simp add: multi_pass_extraction_eq passes_run_def new_calls_def)

lemma multi_pass_result:
  "snd (multi_pass_extraction w b pr cube p) =
     accumulated w (passes_run w (fst (multi_pass_extraction w b pr cube p)))"
  by (simp add: multi_pass_passes_run) (simp add: multi_pass_extraction_eq)

lemma accumulated_2:
  "accumulated w 2 = set_update (set_update [] (pass_result w 0)) (pass_result w (Suc 0))"
  by (simp add: numeral_2_eq_2)

lemma accumulated_3:
  "accumulated w 3 = set_update (accumulated w 2) (pass_result w 2)"
  by (simp add: numeral_3_eq_3 numeral_2_eq_2)

lemma lessThan_3: "{..<3::nat} = {0, Suc 0, 2}"
  by auto

text \<open>
  Claim C1. Whatever the engine replies, the names a multi-pass invocation returns are the
  value of \<open>all_cards\<close> after the passes that ran: the union, string by string, of the
  results of exactly those passes. Between one and three passes run; the accumulated set
  only grows from pass to pass; every returned name was returned by one of the passes that
  ran, unchanged (no function is applied to a name, so its case is the engine's).
\<close>

theorem multi_pass_union:
  assumes "multi_pass_extraction w b pr cube p = (w', final_cards)"
  shows "final_cards = accumulated w (passes_run w w')
       \<and> set final_cards = (\<Union>k<passes_run w w'. set (pass_result w k))
       \<and> passes_run w w' \<in> {1, 2, 3}
       \<and> (\<forall>j k. j \<le> k \<longrightarrow> set (accumulated w j) \<subseteq> set (accumulated w k))
       \<and> (\<forall>x\<in>set final_cards. \<exists>k<passes_run w w'. x \<in> set (pass_result w k))
       \<and> distinct final_cards"
proof -
  have w': "w' = fst (multi_pass_extraction w b pr cube p)"
    and f: "final_cards = snd (multi_pass_extraction w b pr cube p)"
    using assms by simp_all
  have 1: "final_cards = accumulated w (passes_run w w')"
    unfolding w' f by (rule multi_pass_result)
  have 2: "passes_run w w' \<in> {1, 2, 3}"
    unfolding w' by (simp add: multi_pass_passes_run)
  have 3: "set final_cards = (\<Union>k<passes_run w w'. set (pass_result w k))"
    using 1 by (simp add: set_accumulated)
  have 4: "\<forall>x\<in>set final_cards. \<exists>k<passes_run w w'. x \<in> set (pass_result w k)"
    using 3 by auto
  have 5: "distinct final_cards"
    using 1 by (simp add: distinct_accumulated)
  show ?thesis
    using 1 2 3 4 5 accumulated_mono by blast
qed

lemma three_pass_results:
  "pass_result three_pass_world 0 = [''Lightning Bolt'', ''lightning bolt'']"
  "pass_result three_pass_world (Suc 0) = [''Counterspell'']"
  "pass_result three_pass_world 2 = [''Opt'']"
  by (simp_all add: pass_result_def three_pass_world_def world_of_def three_pass_engine_def
      reply_names_def)

lemma three_pass_truthy: "truthy three_pass_cube"
  by (simp add: three_pass_cube_def truthy_def)

lemma three_pass_accumulated:
  "accumulated three_pass_world 2 = [''Lightning Bolt'', ''lightning bolt'', ''Counterspell'']"
  by (simp add: accumulated_2 three_pass_results set_update_def)

lemma three_pass_config:
  "get_enable_validation_pass (config three_pass_world)"
  "get_expected_deck_size (config three_pass_world) = 40"
  by (simp_all add: three_pass_world_def world_of_def get_enable_validation_pass_def
      get_expected_deck_size_def get_bool_def get_int_def)

lemma three_pass_condition: "pass3_condition three_pass_world three_pass_cube"
  unfolding pass3_condition_def three_pass_accumulated three_pass_config(2)
  using three_pass_config(1) three_pass_truthy
  by (simp add: three_pass_results three_pass_cube_def below_threshold_def)

theorem multi_pass_union_witness:
  "passes_run three_pass_world
     (fst (multi_pass_extraction three_pass_world Blob (ExtractionPrompt None) three_pass_cube
             ''deck.jpg'')) = 3
   \<and> set (snd (multi_pass_extraction three_pass_world Blob (ExtractionPrompt None)
                 three_pass_cube ''deck.jpg''))
     = {''Lightning Bolt'', ''lightning bolt'', ''Counterspell'', ''Opt''}"
proof -
  let ?r = "multi_pass_extraction three_pass_world Blob (ExtractionPrompt None) three_pass_cube
              ''deck.jpg''"
  have h: "?r = (fst ?r, snd ?r)" by simp
  have n: "passes_run three_pass_world (fst ?r) = 3"
    by (simp add: multi_pass_passes_run three_pass_condition three_pass_results
        three_pass_truthy)
  from multi_pass_union [OF h]
  have "set (snd ?r) = (\<Union>k<passes_run three_pass_world (fst ?r). set (pass_result three_pass_world k))"
    by blast
  then have "set (snd ?r) = {''Lightning Bolt'', ''lightning bolt'', ''Counterspell'', ''Opt''}"
    unfolding n lessThan_3 by (auto simp: three_pass_results)
  with n show ?thesis by simp
qed

text \<open>
  Claim C2, amended. The third pass runs if and only if a reference list was supplied, the
  second pass ran, the validation pass is enabled, the set accumulated after the second pass
  has fewer than \<open>expected_total * 0.9\<close> elements, and some entry of the reference list is
  not in that set (the guard \<open>if unfound_cards\<close>).
\<close>

theorem pass3_runs_iff:
  assumes "multi_pass_extraction w b pr cube p = (w', final_cards)"
  shows "passes_run w w' = 3 \<longleftrightarrow>
           cube \<noteq> None \<and> 2 \<le> passes_run w w' \<and> get_enable_validation_pass (config w)
           \<and> below_threshold (card (set (accumulated w 2))) (get_expected_deck_size (config w))
           \<and> (\<exists>c\<in>set (the cube). c \<notin> set (accumulated w 2))"
proof -
  have w': "w' = fst (multi_pass_extraction w b pr cube p)"
    using assms by simp
  have len: "card (set (accumulated w 2)) = length (accumulated w 2)"
    by (simp add: distinct_card distinct_accumulated)
  have ex: "(\<exists>c\<in>set (the cube). c \<notin> set (accumulated w 2))
              \<longleftrightarrow> filter (\<lambda>c. c \<notin> set (accumulated w 2)) (the cube) \<noteq> []"
    by (simp add: filter_empty_conv)
  show ?thesis
    unfolding w' multi_pass_passes_run len ex
    by (auto simp: pass3_condition_def truthy_def split: option.splits)
qed

theorem pass3_runs_iff_witness:
  "passes_run three_pass_world
     (fst (multi_pass_extraction three_pass_world Blob (ExtractionPrompt None) three_pass_cube
             ''deck.jpg'')) = 3
   \<and> below_threshold (card (set (accumulated three_pass_world 2)))
        (get_expected_deck_size (config three_pass_world))
   \<and> (\<exists>c\<in>set (the three_pass_cube). c \<notin> set (accumulated three_pass_world 2))"
proof -
  let ?r = "multi_pass_extraction three_pass_world Blob (ExtractionPrompt None) three_pass_cube
              ''deck.jpg''"
  have h: "?r = (fst ?r, snd ?r)" by simp
  have n: "passes_run three_pass_world (fst ?r) = 3"
    by (simp add: multi_pass_passes_run three_pass_condition three_pass_results
        three_pass_truthy)
  from pass3_runs_iff [OF h] n show ?thesis by simp
qed

text \<open>
  The four conditions of claim C2 alone do not make the third pass run: with the reference
  list \<open>[Opt]\<close> and a first pass that finds \<open>Opt\<close>, all four hold (1 is below 36), and
  the invocation ends after two passes, because nothing is left to look for.
\<close>

theorem pass3_iff_counterexample:
  "\<not> (passes_run all_found_world
         (fst (multi_pass_extraction all_found_world Blob (ExtractionPrompt None)
                 (Some [''Opt'']) ''deck.jpg'')) = 3
       \<longleftrightarrow>
         Some [''Opt''] \<noteq> None
         \<and> 2 \<le> passes_run all_found_world
                 (fst (multi_pass_extraction all_found_world Blob (ExtractionPrompt None)
                         (Some [''Opt'']) ''deck.jpg''))
         \<and> get_enable_validation_pass (config all_found_world)
         \<and> below_threshold (card (set (accumulated all_found_world 2)))
              (get_expected_deck_size (config all_found_world)))"
proof -
  have r: "pass_result all_found_world 0 = [''Opt'']" "pass_result all_found_world (Suc 0) = []"
    by (simp_all add: pass_result_def all_found_world_def world_of_def all_found_engine_def
        reply_names_def)
  have a: "accumulated all_found_world 2 = [''Opt'']"
    by (simp add: accumulated_2 r set_update_def)
  have c: "\<not> pass3_condition all_found_world (Some [''Opt''])"
    by (simp add: pass3_condition_def a)
  have n: "passes_run all_found_world
         (fst (multi_pass_extraction all_found_world Blob (ExtractionPrompt None)
                 (Some [''Opt'']) ''deck.jpg'')) = 2"
    by (simp add: multi_pass_passes_run c r truthy_def)
  have cfg: "get_enable_validation_pass (config all_found_world)"
    "get_expected_deck_size (config all_found_world) = 40"
    by (simp_all add: all_found_world_def world_of_def get_enable_validation_pass_def
      get_expected_deck_size_def get_bool_def get_int_def)
  show ?thesis
    using cfg(1) unfolding n a cfg(2) by (simp add: below_threshold_def)
qed

subsection \<open>The steps of the pipeline\<close>

lemma convert_cases:
  "convert_to_compatible_format w p = (w, p)
   \<or> (\<exists>f. convert_to_compatible_format w p
            = (w\<lparr>files := (files w)(converted_png p \<mapsto> f)\<rparr>, converted_png p))
   \<or> (\<exists>f. convert_to_compatible_format w p
            = (w\<lparr>files := (files w)(converted_jpg p \<mapsto> f)\<rparr>, converted_jpg p))"
  by (auto simp: convert_to_compatible_format_def Image_save_def Let_def
      split: sum.splits option.splits)

lemma resize_cases:
  "(\<exists>e. resize_image_if_needed w c m = (w, Inl e))
   \<or> resize_image_if_needed w c m = (w, Inr c)
   \<or> (\<exists>f. resize_image_if_needed w c m
            = (w\<lparr>files := (files w)(resized_path c \<mapsto> f)\<rparr>, Inr (resized_path c)))"
  by (auto simp: resize_image_if_needed_def Image_save_def Let_def
      split: sum.splits option.splits)

lemma cleanup_files:
  "files (cleanup w xs) q = (if q \<in> set xs then None else files w q)"
  by (induction xs arbitrary: w)
    (auto simp: os_path_exists_def os_remove_def split: option.splits)

lemma cleanup_calls: "calls (cleanup w xs) = calls w"
  by (induction xs arbitrary: w)
    (auto simp: os_path_exists_def os_remove_def split: option.splits)

lemma multi_pass_files: "files (fst (multi_pass_extraction w b pr cube p)) = files w"
  by (simp add: multi_pass_extraction_eq)

lemma multi_pass_calls:
  "\<exists>cs. calls (fst (multi_pass_extraction w b (ExtractionPrompt x) cube p)) = calls w @ cs
        \<and> (\<forall>c\<in>set cs. \<not> is_orientation_call c)"
  by (simp add: multi_pass_extraction_eq is_orientation_call_def)

lemma convert_missing:
  "files w p = None \<Longrightarrow> convert_to_compatible_format w p = (w, p)"
  by (simp add: convert_to_compatible_format_def Image_open_def Let_def)

lemma resize_missing:
  "files w p = None \<Longrightarrow> resize_image_if_needed w p m = (w, Inl FileNotFoundError)"
  by (simp add: resize_image_if_needed_def Image_open_def Let_def)

lemma run_passes_files: "files (fst (run_passes w b pr cube p mp)) = files w"
  by (simp add: run_passes_def multi_pass_files single_pass_extraction_eq)

lemma run_passes_calls:
  "\<exists>cs. calls (fst (run_passes w b (extraction_prompt w' cube') cube p mp)) = calls w @ cs
        \<and> (\<forall>c\<in>set cs. \<not> is_orientation_call c)"
  using multi_pass_calls [of w b _ cube p]
  by (simp add: run_passes_def extraction_prompt_def single_pass_extraction_eq
      is_orientation_call_def)


lemma extract_card_names_eq:
  assumes "convert_to_compatible_format w p = (w1, c)"
    and "resize_image_if_needed w1 c None = (w2, r)"
  shows "extract_card_names w p cid mp =
    (case r of
       Inl e \<Rightarrow> (w2, Inl e)
     | Inr pr \<Rightarrow>
        (case encode_image w2 pr of
           Inl e \<Rightarrow> (w2, Inl e)
         | Inr b \<Rightarrow>
            (case (if truthy cid then fetch_cubecobra_list w2 (the cid) else Inr None) of
               Inl e \<Rightarrow> (w2, Inl e)
             | Inr cube \<Rightarrow>
                (cleanup (fst (run_passes w2 b (extraction_prompt w2 cube) cube p mp))
                   ((if c \<noteq> p then [c] else []) @ (if pr \<noteq> c then [pr] else [])),
                 Inr (snd (run_passes w2 b (extraction_prompt w2 cube) cube p mp))))))"
  unfolding extract_card_names_def Let_def case_prod_beta assms fst_conv snd_conv assms
  by (rule refl)


text \<open>
  The two ways \<open>extract_card_names\<close> ends: an exception before the \<open>try\<close> statement, with
  the world as the preparation left it; or the passes, followed by the cleanup.
\<close>

lemma extract_card_names_shape:
  "\<exists>w2. (\<forall>q. q \<notin> temp_paths p \<longrightarrow> files w2 q = files w q) \<and> calls w2 = calls w
     \<and> ((\<exists>e. extract_card_names w p cid mp = (w2, Inl e))
        \<or> (\<exists>b cube L. set L \<subseteq> temp_paths p
             \<and> (\<forall>q. q \<notin> set L \<longrightarrow> files w2 q = files w q)
             \<and> extract_card_names w p cid mp
               = (cleanup (fst (run_passes w2 b (extraction_prompt w2 cube) cube p mp)) L,
                  Inr (snd (run_passes w2 b (extraction_prompt w2 cube) cube p mp)))))"
proof -
  obtain w1 c where conv: "convert_to_compatible_format w p = (w1, c)"
    by fastforce
  have c: "c = p \<or> c = converted_png p \<or> c = converted_jpg p"
    and w1: "\<forall>q. q \<notin> temp_paths p \<longrightarrow> files w1 q = files w q" "calls w1 = calls w"
    using convert_cases [of w p] conv by (auto simp: temp_paths_def)
  have w1f: "\<forall>q. q \<noteq> c \<or> c = p \<longrightarrow> files w1 q = files w q"
    using convert_cases [of w p] conv converted_png_neq [of p] converted_jpg_neq [of p]
    by auto
  obtain w2 r where res: "resize_image_if_needed w1 c None = (w2, r)"
    by fastforce
  have rc: "resized_path c \<in> temp_paths p"
    using c by (auto simp: temp_paths_def)
  have w2: "\<forall>q. q \<notin> temp_paths p \<longrightarrow> files w2 q = files w q" "calls w2 = calls w"
    using resize_cases [of w1 c None] res rc w1 by auto
  have r: "\<And>pr. r = Inr pr \<Longrightarrow> pr = c \<or> pr = resized_path c"
    using resize_cases [of w1 c None] res by auto
  have w2f: "\<And>pr. r = Inr pr \<Longrightarrow> \<forall>q. q \<noteq> pr \<or> pr = c \<longrightarrow> files w2 q = files w1 q"
    using resize_cases [of w1 c None] res resized_path_neq [of c] by auto
  note eq = extract_card_names_eq [OF conv res]
  show ?thesis
  proof (cases r)
    case (Inl e)
    then have "extract_card_names w p cid mp = (w2, Inl e)"
      by (simp add: eq)
    with w2 show ?thesis by blast
  next
    case (Inr pr)
    note r_eq = this
    let ?L = "(if c \<noteq> p then [c] else []) @ (if pr \<noteq> c then [pr] else [])"
    have L: "set ?L \<subseteq> temp_paths p"
      using c r [OF r_eq] rc by (auto simp: temp_paths_def)
    have L2: "\<forall>q. q \<notin> set ?L \<longrightarrow> files w2 q = files w q"
      using w1f w2f [OF r_eq] by (simp split: if_splits)
    show ?thesis
    proof (cases "encode_image w2 pr")
      case (Inl e)
      then have "extract_card_names w p cid mp = (w2, Inl e)"
        by (simp add: eq r_eq)
      with w2 show ?thesis by blast
    next
      case (Inr b)
      note enc = this
      show ?thesis
      proof (cases "if truthy cid then fetch_cubecobra_list w2 (the cid) else Inr None")
        case (Inl e)
        then have "extract_card_names w p cid mp = (w2, Inl e)"
          by (simp only: eq r_eq enc sum.case)
        with w2 show ?thesis by blast
      next
        case (Inr cube)
        then have "extract_card_names w p cid mp
               = (cleanup (fst (run_passes w2 b (extraction_prompt w2 cube) cube p mp)) ?L,
                  Inr (snd (run_passes w2 b (extraction_prompt w2 cube) cube p mp)))"
          by (simp only: eq r_eq enc sum.case)
        with w2 L L2 show ?thesis by blast
      qed
    qed
  qed
qed

lemma extract_card_names_files:
  assumes "q \<notin> temp_paths p"
  shows "files (fst (extract_card_names w p cid mp)) q = files w q"
  using extract_card_names_shape [of p w cid mp] assms
  by (auto simp: cleanup_files run_passes_files)

lemma extract_card_names_calls:
  "\<exists>cs. calls (fst (extract_card_names w p cid mp)) = calls w @ cs
        \<and> (\<forall>c\<in>set cs. \<not> is_orientation_call c)"
proof -
  obtain w2 where w2: "calls w2 = calls w"
    and d: "(\<exists>e. extract_card_names w p cid mp = (w2, Inl e))
        \<or> (\<exists>b cube L. extract_card_names w p cid mp
               = (cleanup (fst (run_passes w2 b (extraction_prompt w2 cube) cube p mp)) L,
                  Inr (snd (run_passes w2 b (extraction_prompt w2 cube) cube p mp))))"
    using extract_card_names_shape [of p w cid mp] by blast
  from d show ?thesis
  proof
    assume "\<exists>e. extract_card_names w p cid mp = (w2, Inl e)"
    then show ?thesis using w2 by auto
  next
    assume "\<exists>b cube L. extract_card_names w p cid mp
               = (cleanup (fst (run_passes w2 b (extraction_prompt w2 cube) cube p mp)) L,
                  Inr (snd (run_passes w2 b (extraction_prompt w2 cube) cube p mp)))"
    then obtain b cube L where "extract_card_names w p cid mp
               = (cleanup (fst (run_passes w2 b (extraction_prompt w2 cube) cube p mp)) L,
                  Inr (snd (run_passes w2 b (extraction_prompt w2 cube) cube p mp)))"
      by blast
    then show ?thesis
      using run_passes_calls [of w2 b w2 cube cube p mp] by (simp add: cleanup_calls w2)
  qed
qed

subsection \<open>Format Normalizer and Resizer\<close>

text \<open>
  Claim C5. A path whose suffix is one of the accepted ones comes back from the Format
  Normalizer as it is, and the path of an image within the bound comes back from the
  Resizer as it is, whether the bound is passed or configured; in both cases the world is
  returned unchanged, so no file was created.
\<close>

theorem normalizer_resizer_idempotent:
  "(py_lower (path_suffix p) \<in> set [''.jpg'', ''.jpeg'', ''.png'']
      \<longrightarrow> convert_to_compatible_format w p = (w, p))
   \<and> (Image_open w p = Inr img
        \<and> int (width img) \<le> fst (resolve_max_size w max_size)
        \<and> int (height img) \<le> snd (resolve_max_size w max_size)
      \<longrightarrow> resize_image_if_needed w p max_size = (w, Inr p))"
  by (simp add: convert_to_compatible_format_def resize_image_if_needed_def Let_def)

lemma suffix_deck_jpg: "path_suffix ''deck.jpg'' = ''.jpg''"
  by (simp add: path_suffix_def path_name_def path_tail_def name_suffix_def rfind_dot_def)

lemma lower_jpg: "py_lower ''.jpg'' = ''.jpg''"
  by (simp add: py_lower_def lower_char_def)

theorem normalizer_resizer_idempotent_witness:
  "convert_to_compatible_format three_pass_world ''deck.jpg'' = (three_pass_world, ''deck.jpg'')
   \<and> resize_image_if_needed three_pass_world ''deck.jpg'' None
       = (three_pass_world, Inr ''deck.jpg'')
   \<and> resize_image_if_needed three_pass_world ''deck.jpg'' (Some (1200, 800))
       = (three_pass_world, Inr ''deck.jpg'')"
proof -
  have a: "py_lower (path_suffix ''deck.jpg'') \<in> set [''.jpg'', ''.jpeg'', ''.png'']"
    by (simp add: suffix_deck_jpg lower_jpg)
  have o: "Image_open three_pass_world ''deck.jpg'' = Inr (photo RGB)"
    by (simp add: Image_open_def three_pass_world_def world_of_def)
  have b: "int (width (photo RGB)) \<le> fst (resolve_max_size three_pass_world None)
        \<and> int (height (photo RGB)) \<le> snd (resolve_max_size three_pass_world None)"
    by (simp add: photo_def resolve_max_size_def get_int_def three_pass_world_def world_of_def)
  have c: "int (width (photo RGB)) \<le> fst (resolve_max_size three_pass_world (Some (1200, 800)))
        \<and> int (height (photo RGB)) \<le> snd (resolve_max_size three_pass_world (Some (1200, 800)))"
    by (simp add: photo_def resolve_max_size_def)
  show ?thesis
    using normalizer_resizer_idempotent [of "''deck.jpg''" three_pass_world "photo RGB" None]
      normalizer_resizer_idempotent [of "''deck.jpg''" three_pass_world "photo RGB"
        "Some (1200, 800)"] a o b c
    by blast
qed

text \<open>
  A source that is not in an accepted encoding and decodes to mode \<open>RGBA\<close> or \<open>P\<close> is
  written as PNG: the one file the Format Normalizer writes is the PNG beside the source, it
  holds the decoded image itself (same mode, size and pixels), its path is returned, and no
  file in the lossy encoding appears.
\<close>

lemma rgba_and_palette_converted_losslessly:
  assumes "py_lower (path_suffix p) \<notin> set [''.jpg'', ''.jpeg'', ''.png'']"
    and "Image_open w p = Inr img"
    and "mode img = RGBA \<or> mode img = P"
  shows "convert_to_compatible_format w p
           = (w\<lparr>files := (files w)(converted_png p \<mapsto> Picture PNG None img)\<rparr>, converted_png p)
       \<and> Image_open (fst (convert_to_compatible_format w p)) (converted_png p) = Inr img
       \<and> (\<forall>q k i. files (fst (convert_to_compatible_format w p)) q = Some (Picture JPEG k i)
             \<longrightarrow> files w q = Some (Picture JPEG k i))"
proof -
  have 1: "convert_to_compatible_format w p
           = (w\<lparr>files := (files w)(converted_png p \<mapsto> Picture PNG None img)\<rparr>, converted_png p)"
    using assms
    by (auto simp: convert_to_compatible_format_def Image_save_def writable_def Let_def)
  show ?thesis
    unfolding 1 by (simp add: Image_open_def)
qed

lemma stem_suffix_deck_gif:
  "path_suffix ''deck.gif'' = ''.gif''" "path_stem ''deck.gif'' = ''deck''"
  by (simp_all add: path_suffix_def path_stem_def path_name_def path_tail_def name_suffix_def
      name_stem_def rfind_dot_def)

lemma converted_png_deck_gif: "converted_png ''deck.gif'' = ''deck_converted.png''"
  by (simp add: converted_png_def stem_suffix_deck_gif path_sibling_def path_tail_def
      path_root_def)

lemma palette_converted_losslessly:
  "convert_to_compatible_format palette_world ''deck.gif''
     = (palette_world\<lparr>files := (files palette_world)
            (''deck_converted.png'' \<mapsto> Picture PNG None (photo P))\<rparr>, ''deck_converted.png'')"
proof -
  have a: "py_lower (path_suffix ''deck.gif'') \<notin> set [''.jpg'', ''.jpeg'', ''.png'']"
    by (simp add: stem_suffix_deck_gif py_lower_def lower_char_def)
  have o: "Image_open palette_world ''deck.gif'' = Inr (photo P)"
    by (simp add: Image_open_def palette_world_def world_of_def)
  have m: "mode (photo P) = RGBA \<or> mode (photo P) = P"
    by (simp add: photo_def)
  show ?thesis
    using rgba_and_palette_converted_losslessly [OF a o m] by (simp add: converted_png_deck_gif)
qed

lemma stem_suffix_deck_tiff:
  "path_suffix ''deck.tiff'' = ''.tiff''" "path_stem ''deck.tiff'' = ''deck''"
  by (simp_all add: path_suffix_def path_stem_def path_name_def path_tail_def name_suffix_def
      name_stem_def rfind_dot_def)

lemma converted_jpg_deck_tiff: "converted_jpg ''deck.tiff'' = ''deck_converted.jpg''"
  by (simp add: converted_jpg_def stem_suffix_deck_tiff path_sibling_def path_tail_def
      path_root_def)

lemma grey_alpha_fields:
  "files grey_alpha_world = [''deck.tiff'' \<mapsto> Picture (Other ''TIFF'') None (photo LA)]"
  "config grey_alpha_world = Map.empty"
  by (simp_all add: grey_alpha_world_def world_of_def)

text \<open>
  Claim C6 at a failing input. A greyscale TIFF with an alpha channel decodes to mode
  \<open>LA\<close>, which the test \<open>img.mode in ['RGBA', 'P']\<close> does not list: the Format Normalizer
  converts the image to \<open>RGB\<close>, which drops the alpha channel, and writes it in the lossy
  encoding; no PNG is written.
\<close>

theorem grey_alpha_loses_transparency:
  "Image_open grey_alpha_world ''deck.tiff'' = Inr (photo LA)
   \<and> mode (photo LA) = LA
   \<and> convert_to_compatible_format grey_alpha_world ''deck.tiff''
       = (grey_alpha_world\<lparr>files := (files grey_alpha_world)
            (''deck_converted.jpg'' \<mapsto>
               Picture JPEG (Some 95) (photo LA\<lparr>mode := RGB, pixels := ToRGB (Source 0)\<rparr>))\<rparr>,
          ''deck_converted.jpg'')
   \<and> files (fst (convert_to_compatible_format grey_alpha_world ''deck.tiff''))
         (converted_png ''deck.tiff'') = None"
proof -
  have o: "Image_open grey_alpha_world ''deck.tiff'' = Inr (photo LA)"
    by (simp add: Image_open_def grey_alpha_fields)
  have m: "mode (photo LA) = LA"
    by (simp add: photo_def)
  have c: "convert_to_compatible_format grey_alpha_world ''deck.tiff''
       = (grey_alpha_world\<lparr>files := (files grey_alpha_world)
            (''deck_converted.jpg'' \<mapsto>
               Picture JPEG (Some 95) (photo LA\<lparr>mode := RGB, pixels := ToRGB (Source 0)\<rparr>))\<rparr>,
          ''deck_converted.jpg'')"
    by (simp add: convert_to_compatible_format_def stem_suffix_deck_tiff py_lower_def
        lower_char_def o m Image_convert_RGB_def Image_save_def writable_def
        converted_jpg_deck_tiff grey_alpha_fields get_int_def Let_def)
      (simp add: photo_def)
  have p: "converted_png ''deck.tiff'' = ''deck_converted.png''"
    by (simp add: converted_png_def stem_suffix_deck_tiff path_sibling_def path_tail_def
        path_root_def)
  have n: "files (fst (convert_to_compatible_format grey_alpha_world ''deck.tiff''))
         (converted_png ''deck.tiff'') = None"
    unfolding c p by (simp add: grey_alpha_fields)
  from o m c n show ?thesis by simp
qed

subsection \<open>Missing source file\<close>

lemma detect_missing:
  "files w p = None \<Longrightarrow> detect_image_orientation w p = (w, Inl UnboundLocalError)"
  by (simp add: detect_image_orientation_def convert_missing encode_image_def
      detection_failed_def cleanup_converted_def)

lemma stem_nowhere_webp: "path_stem ''nowhere.webp'' = ''nowhere''"
  by (simp add: path_stem_def path_name_def path_tail_def name_stem_def rfind_dot_def)

lemma nowhere_missing: "files three_pass_world ''nowhere.webp'' = None"
  by (simp add: three_pass_world_def world_of_def)

text \<open>
  Claim C9, amended. \<open>ImageProcessor\<close> has no check of the path before it starts. For a
  path with no file behind it the Format Normalizer runs first, absorbs its own failed open
  and returns the path; the Resizer's open then raises \<open>FileNotFoundError\<close>, and that is the
  exception of \<open>extract_card_names\<close>, and of the composed entry point when the name carries
  the marker. Without the marker the composed entry point fails in the orientation
  detection, with the exception the detection raises, which is not \<open>FileNotFoundError\<close>. In
  every case the world is returned as it was: no file written, no call to the engine,
  nothing fetched.
\<close>

theorem missing_source_file:
  assumes "files w p = None"
  shows "convert_to_compatible_format w p = (w, p)
       \<and> resize_image_if_needed w p None = (w, Inl FileNotFoundError)
       \<and> extract_card_names w p cid mp = (w, Inl FileNotFoundError)
       \<and> (py_in ''_oriented'' (path_stem p)
            \<longrightarrow> extract_card_names_with_orientation w p cid mp = (w, Inl FileNotFoundError))
       \<and> (\<not> py_in ''_oriented'' (path_stem p)
            \<longrightarrow> (\<exists>e. detect_image_orientation w p = (w, Inl e)
                   \<and> extract_card_names_with_orientation w p cid mp = (w, Inl e)
                   \<and> e \<noteq> FileNotFoundError))"
proof -
  note c = convert_missing [OF assms]
  note r = resize_missing [OF assms, of None]
  have 1: "extract_card_names w p cid mp = (w, Inl FileNotFoundError)"
    using extract_card_names_eq [OF c r] by simp
  have 2: "extract_card_names_with_orientation w p cid mp = (w, Inl FileNotFoundError)"
    if "py_in ''_oriented'' (path_stem p)"
    using that by (simp add: extract_card_names_with_orientation_def 1)
  have 3: "\<exists>e. detect_image_orientation w p = (w, Inl e)
                   \<and> extract_card_names_with_orientation w p cid mp = (w, Inl e)
                   \<and> e \<noteq> FileNotFoundError"
    if "\<not> py_in ''_oriented'' (path_stem p)"
    using that
    by (simp add: extract_card_names_with_orientation_def detect_missing [OF assms])
  from c r 1 2 3 show ?thesis by blast
qed

theorem missing_source_file_witness:
  "files three_pass_world ''nowhere.webp'' = None
   \<and> \<not> py_in ''_oriented'' (path_stem ''nowhere.webp'')
   \<and> convert_to_compatible_format three_pass_world ''nowhere.webp''
       = (three_pass_world, ''nowhere.webp'')
   \<and> resize_image_if_needed three_pass_world ''nowhere.webp'' None
       = (three_pass_world, Inl FileNotFoundError)
   \<and> extract_card_names three_pass_world ''nowhere.webp'' None True
       = (three_pass_world, Inl FileNotFoundError)
   \<and> (\<exists>e. detect_image_orientation three_pass_world ''nowhere.webp'' = (three_pass_world, Inl e)
         \<and> extract_card_names_with_orientation three_pass_world ''nowhere.webp'' None True
            = (three_pass_world, Inl e)
         \<and> e \<noteq> FileNotFoundError)"
proof -
  have m: "\<not> py_in ''_oriented'' (path_stem ''nowhere.webp'')"
    by (simp add: stem_nowhere_webp)
  from missing_source_file [OF nowhere_missing, of None True] nowhere_missing m
  show ?thesis by blast
qed

text \<open>
  Claim C9 as it is stated fails on the composed entry point. For the missing path
  \<open>nowhere.webp\<close> the Format Normalizer has returned normally, so processing has begun; the
  read in \<open>encode_image\<close> then raises inside the \<open>try\<close> of \<open>detect_image_orientation\<close>, whose
  handler formats the unbound \<open>response\<close>: the exception that reaches the caller is
  \<open>UnboundLocalError\<close>, not the missing-file error.
\<close>

theorem missing_source_file_counterexample:
  "files three_pass_world ''nowhere.webp'' = None
   \<and> convert_to_compatible_format three_pass_world ''nowhere.webp''
       = (three_pass_world, ''nowhere.webp'')
   \<and> snd (extract_card_names_with_orientation three_pass_world ''nowhere.webp'' None True)
       = Inl UnboundLocalError
   \<and> snd (extract_card_names_with_orientation three_pass_world ''nowhere.webp'' None True)
       \<noteq> Inl FileNotFoundError"
  by (simp add: nowhere_missing convert_missing extract_card_names_with_orientation_def
      stem_nowhere_webp detect_missing)

subsection \<open>Orientation detection\<close>

lemma detection_failed_eq:
  "detection_failed w p c bound =
     (cleanup_converted w p c, Inl (if bound then SystemExit else UnboundLocalError))"
  by (simp add: detection_failed_def)

lemma detect_no_rotation_plain:
  assumes "reply_rotation (engine w (length (calls w))) = None"
    and "convert_to_compatible_format w p = (w, p)"
  shows "\<exists>w' e. detect_image_orientation w p = (w', Inl e)
           \<and> (\<forall>c\<in>set (new_calls w w'). is_orientation_call c)
           \<and> files w' = files w"
  using assms
  by (auto simp: detect_image_orientation_def detection_failed_eq cleanup_converted_def
      new_calls_def is_orientation_call_def reply_rotation_def
      split: sum.splits reply.splits)

lemma detect_no_rotation_converted:
  assumes "reply_rotation (engine w (length (calls w))) = None"
    and "convert_to_compatible_format w p = (w\<lparr>files := (files w)(c \<mapsto> f)\<rparr>, c)"
    and "c \<noteq> p"
  shows "\<exists>w' e. detect_image_orientation w p = (w', Inl e)
           \<and> (\<forall>c\<in>set (new_calls w w'). is_orientation_call c)
           \<and> files w' = (files w)(c := None)"
  using assms
  by (auto simp: detect_image_orientation_def detection_failed_eq cleanup_converted_def
      new_calls_def is_orientation_call_def reply_rotation_def encode_image_def os_remove_def
      split: sum.splits reply.splits)

lemma detect_no_rotation:
  assumes "reply_rotation (engine w (length (calls w))) = None"
  shows "\<exists>w' e. detect_image_orientation w p = (w', Inl e)
           \<and> (\<forall>c\<in>set (new_calls w w'). is_orientation_call c)
           \<and> (\<forall>q. files w' q = None \<or> files w' q = files w q)"
proof -
  consider "convert_to_compatible_format w p = (w, p)"
    | f where "convert_to_compatible_format w p
            = (w\<lparr>files := (files w)(converted_png p \<mapsto> f)\<rparr>, converted_png p)"
    | f where "convert_to_compatible_format w p
            = (w\<lparr>files := (files w)(converted_jpg p \<mapsto> f)\<rparr>, converted_jpg p)"
    using convert_cases [of w p] by blast
  then show ?thesis
  proof cases
    case 1
    from detect_no_rotation_plain [OF assms 1] show ?thesis by fastforce
  next
    case 2
    from detect_no_rotation_converted [OF assms 2 converted_png_neq] show ?thesis
      by fastforce
  next
    case 3
    from detect_no_rotation_converted [OF assms 3 converted_jpg_neq] show ?thesis
      by fastforce
  qed
qed

text \<open>
  Claim C3. When the engine delivers no rotation to the detection call (it raises, or its
  response carries no parsed result), \<open>detect_image_orientation\<close> raises: no rotation is
  returned in its place. The composed entry point raises the same exception in the same
  world, every call added to the log is the detection call, so no extraction was attempted,
  and every file on disk afterwards was there before with the same content, so the
  converted copy made for the call is gone.
\<close>

theorem orientation_failure_is_fatal:
  assumes "reply_rotation (engine w (length (calls w))) = None"
    and "\<not> py_in ''_oriented'' (path_stem p)"
  shows "\<exists>w' e. detect_image_orientation w p = (w', Inl e)
           \<and> extract_card_names_with_orientation w p cid mp = (w', Inl e)
           \<and> (\<forall>c\<in>set (new_calls w w'). is_orientation_call c)
           \<and> (\<forall>q. files w' q = None \<or> files w' q = files w q)"
proof -
  obtain w' e where d: "detect_image_orientation w p = (w', Inl e)"
    and r: "\<forall>c\<in>set (new_calls w w'). is_orientation_call c"
      "\<forall>q. files w' q = None \<or> files w' q = files w q"
    using detect_no_rotation [OF assms(1), of p] by blast
  have "extract_card_names_with_orientation w p cid mp = (w', Inl e)"
    using assms(2) by (simp add: extract_card_names_with_orientation_def d)
  with d r show ?thesis by blast
qed

lemma stem_deck_webp: "path_stem ''deck.webp'' = ''deck''"
  by (simp add: path_stem_def path_name_def path_tail_def name_stem_def rfind_dot_def)

theorem orientation_failure_is_fatal_witness:
  "reply_rotation (engine failing_engine_world (length (calls failing_engine_world))) = None
   \<and> \<not> py_in ''_oriented'' (path_stem ''deck.webp'')
   \<and> (\<exists>w' e. detect_image_orientation failing_engine_world ''deck.webp'' = (w', Inl e)
           \<and> extract_card_names_with_orientation failing_engine_world ''deck.webp'' None True
              = (w', Inl e)
           \<and> (\<forall>c\<in>set (new_calls failing_engine_world w'). is_orientation_call c)
           \<and> (\<forall>q. files w' q = None \<or> files w' q = files failing_engine_world q))"
proof -
  have a: "reply_rotation (engine failing_engine_world (length (calls failing_engine_world)))
            = None"
    by (simp add: failing_engine_world_def world_of_def reply_rotation_def)
  have b: "\<not> py_in ''_oriented'' (path_stem ''deck.webp'')"
    by (simp add: stem_deck_webp)
  from orientation_failure_is_fatal [OF a b] a b show ?thesis by blast
qed

subsection \<open>The marker guard\<close>

text \<open>
  Claim C4. When the stem of the file name contains the marker \<open>_oriented\<close>, the composed
  entry point goes straight to the extraction: its outcome is that of \<open>extract_card_names\<close>
  on the same path in the same world, with the input path as the oriented path (rotation
  0, no rotated file); none of the calls it adds to the log is a detection call, and the
  input file is left as it was.
\<close>

theorem oriented_marker_skips_detection:
  assumes "py_in ''_oriented'' (path_stem p)"
  shows "extract_card_names_with_orientation w p cid mp
           = with_path p (extract_card_names w p cid mp)
       \<and> (\<forall>c\<in>set (new_calls w (fst (extract_card_names_with_orientation w p cid mp))).
             \<not> is_orientation_call c)
       \<and> (\<forall>r. snd (extract_card_names_with_orientation w p cid mp) = Inr r
             \<longrightarrow> oriented_image_path r = p)
       \<and> files (fst (extract_card_names_with_orientation w p cid mp)) p = files w p"
proof -
  have 1: "extract_card_names_with_orientation w p cid mp
           = with_path p (extract_card_names w p cid mp)"
    using assms by (simp add: extract_card_names_with_orientation_def with_path_def)
  have f: "fst (with_path p (extract_card_names w p cid mp)) = fst (extract_card_names w p cid mp)"
    by (simp add: with_path_def split: prod.split sum.split)
  obtain cs where cs: "calls (fst (extract_card_names w p cid mp)) = calls w @ cs"
    "\<forall>c\<in>set cs. \<not> is_orientation_call c"
    using extract_card_names_calls [of w p cid mp] by blast
  have 2: "\<forall>c\<in>set (new_calls w (fst (extract_card_names_with_orientation w p cid mp))).
             \<not> is_orientation_call c"
    unfolding 1 f using cs by (simp add: new_calls_def)
  have 3: "\<forall>r. snd (extract_card_names_with_orientation w p cid mp) = Inr r
             \<longrightarrow> oriented_image_path r = p"
    unfolding 1 by (auto simp: with_path_def split: prod.splits sum.splits)
  have 4: "files (fst (extract_card_names_with_orientation w p cid mp)) p = files w p"
    unfolding 1 f by (rule extract_card_names_files [OF not_in_temp_paths])
  from 1 2 3 4 show ?thesis by blast
qed

subsection \<open>Rotation\<close>

lemma convert_accepted:
  "py_lower (path_suffix p) \<in> set [''.jpg'', ''.jpeg'', ''.png'']
     \<Longrightarrow> convert_to_compatible_format w p = (w, p)"
  by (simp add: convert_to_compatible_format_def Let_def)

lemma resize_within:
  "Image_open w p = Inr img \<Longrightarrow> int (width img) \<le> fst (resolve_max_size w m)
     \<Longrightarrow> int (height img) \<le> snd (resolve_max_size w m)
     \<Longrightarrow> resize_image_if_needed w p m = (w, Inr p)"
  by (simp add: resize_image_if_needed_def Let_def)

lemma detect_returns_plain:
  assumes "reply_rotation (engine w (length (calls w))) = Some r"
    and "files w p \<noteq> None"
    and "convert_to_compatible_format w p = (w, p)"
  shows "\<exists>w1. detect_image_orientation w p = (w1, Inr r)
           \<and> same_platform w w1 \<and> files w1 = files w"
  using assms
  by (auto simp: detect_image_orientation_def cleanup_converted_def encode_image_def
      reply_rotation_def same_platform_def split: reply.splits)

lemma detect_returns_converted:
  assumes "reply_rotation (engine w (length (calls w))) = Some r"
    and "convert_to_compatible_format w p = (w\<lparr>files := (files w)(c \<mapsto> f)\<rparr>, c)"
    and "c \<noteq> p"
  shows "\<exists>w1. detect_image_orientation w p = (w1, Inr r)
           \<and> same_platform w w1 \<and> files w1 = (files w)(c := None)"
  using assms
  by (auto simp: detect_image_orientation_def cleanup_converted_def encode_image_def
      os_remove_def reply_rotation_def same_platform_def split: reply.splits)

lemma detect_returns:
  assumes "reply_rotation (engine w (length (calls w))) = Some r"
    and "files w p \<noteq> None"
  shows "\<exists>w1. detect_image_orientation w p = (w1, Inr r)
           \<and> same_platform w w1 \<and> files w1 p = files w p"
proof -
  consider "convert_to_compatible_format w p = (w, p)"
    | f where "convert_to_compatible_format w p
            = (w\<lparr>files := (files w)(converted_png p \<mapsto> f)\<rparr>, converted_png p)"
    | f where "convert_to_compatible_format w p
            = (w\<lparr>files := (files w)(converted_jpg p \<mapsto> f)\<rparr>, converted_jpg p)"
    using convert_cases [of w p] by blast
  then show ?thesis
  proof cases
    case 1
    from detect_returns_plain [OF assms 1] show ?thesis by fastforce
  next
    case 2
    from detect_returns_converted [OF assms(1) 2 converted_png_neq]
    show ?thesis using converted_png_neq [of p] by fastforce
  next
    case 3
    from detect_returns_converted [OF assms(1) 3 converted_jpg_neq]
    show ?thesis using converted_jpg_neq [of p] by fastforce
  qed
qed

lemma Image_save_same_platform:
  assumes "same_platform w w1"
  shows "isl (Image_save w1 img out fmt k) = isl (Image_save w img out fmt k)"
  using assms
  by (auto simp: Image_save_def same_platform_def extension_format_def writable_def
      split: option.splits format.splits if_splits)

lemma rotation_fails_isl:
  "rotation_fails w p r out =
     (case Image_open w p of
        Inl e \<Rightarrow> True
      | Inr img \<Rightarrow> isl (Image_save w (Image_rotate w img ((360 - r) mod 360)) out None
                         (save_kwargs w out)))"
  by (simp add: rotation_fails_def split: sum.splits)

lemma rotation_fails_same_platform:
  assumes "same_platform w w1" and "files w1 p = files w p"
  shows "rotation_fails w1 p r out = rotation_fails w p r out"
proof -
  have o: "Image_open w1 p = Image_open w p"
    using assms(2) by (simp add: Image_open_def)
  have r: "\<And>img a. Image_rotate w1 img a = Image_rotate w img a"
    using assms(1) by (simp add: Image_rotate_def same_platform_def Let_def)
  have k: "save_kwargs w1 out = save_kwargs w out"
    using assms(1) by (simp add: save_kwargs_def same_platform_def)
  show ?thesis
    unfolding rotation_fails_isl o r k Image_save_same_platform [OF assms(1)]
    by (rule refl)
qed

lemma rotate_and_save_fails:
  assumes "r \<noteq> 0" and "rotation_fails w p r out"
  shows "rotate_and_save_image w p r (Some out) = (w, p)"
  using assms
  by (auto simp: rotate_and_save_image_def rotation_fails_def Let_def split: sum.splits)

lemma rotate_and_save_fails_default:
  assumes "r \<noteq> 0" and "rotation_fails w p r (rotated_path p)"
  shows "rotate_and_save_image w p r None = (w, p)"
  using assms
  by (auto simp: rotate_and_save_image_def rotation_fails_def Let_def split: sum.splits)

lemma rotate_and_save_succeeds:
  assumes "r \<noteq> 0" and "Image_open w p = Inr img" and "\<not> rotation_fails w p r out"
  shows "\<exists>f k. rotate_and_save_image w p r (Some out)
           = (w\<lparr>files := (files w)
                  (out \<mapsto> Picture f k (Image_rotate w img ((360 - r) mod 360)))\<rparr>, out)"
  using assms
  by (auto simp: rotate_and_save_image_def rotation_fails_def Let_def Image_save_def
      split: sum.splits option.splits if_splits)

lemma fst_with_path: "fst (with_path p r) = fst r"
  by (simp add: with_path_def split: prod.split sum.split)

lemma Image_rotate_270:
  "width (Image_rotate w img 270) = height img" "height (Image_rotate w img 270) = width img"
  by (simp_all add: Image_rotate_def)

text \<open>
  Claim C10. A rotation by a nonzero angle that fails, because the image does not open or
  the rotated image cannot be saved, makes \<open>rotate_and_save_image\<close> return the input path
  in an unchanged world, whether the output path is passed or derived. When the detection
  has found such an angle for a path without the marker, the composed entry point
  therefore continues with the unrotated input: its outcome is that of the extraction on
  the input path, with the input path as the oriented path, and the failure of the rotation
  is not raised.
\<close>

theorem failed_rotation_returns_input:
  assumes "r \<noteq> 0"
  shows "(rotation_fails w p r out \<longrightarrow> rotate_and_save_image w p r (Some out) = (w, p))
       \<and> (rotation_fails w p r (rotated_path p) \<longrightarrow> rotate_and_save_image w p r None = (w, p))
       \<and> (\<not> py_in ''_oriented'' (path_stem p) \<and> files w p \<noteq> None
            \<and> reply_rotation (engine w (length (calls w))) = Some r
            \<and> rotation_fails w p r (oriented_path p)
          \<longrightarrow> (\<exists>w1. detect_image_orientation w p = (w1, Inr r)
                 \<and> extract_card_names_with_orientation w p cid mp
                    = with_path p (extract_card_names w1 p cid mp)))"
proof -
  have 3: "\<exists>w1. detect_image_orientation w p = (w1, Inr r)
                 \<and> extract_card_names_with_orientation w p cid mp
                    = with_path p (extract_card_names w1 p cid mp)"
    if m: "\<not> py_in ''_oriented'' (path_stem p)" and f: "files w p \<noteq> None"
      and e: "reply_rotation (engine w (length (calls w))) = Some r"
      and rf: "rotation_fails w p r (oriented_path p)"
  proof -
    obtain w1 where d: "detect_image_orientation w p = (w1, Inr r)"
      and s: "same_platform w w1" "files w1 p = files w p"
      using detect_returns [OF e f] by blast
    have "rotation_fails w1 p r (oriented_path p)"
      using rf rotation_fails_same_platform [OF s] by simp
    then have "rotate_and_save_image w1 p r (Some (oriented_path p)) = (w1, p)"
      using assms by (rule rotate_and_save_fails [rotated])
    then have "extract_card_names_with_orientation w p cid mp
                    = with_path p (extract_card_names w1 p cid mp)"
      using m assms by (simp add: extract_card_names_with_orientation_def d with_path_def)
    with d show ?thesis by blast
  qed
  show ?thesis
    using 3 rotate_and_save_fails [OF assms] rotate_and_save_fails_default [OF assms]
    by blast
qed

text \<open>
  Claim C7, amended. When the detection returns 90 for a path without the marker, the
  image opens and the rotated image can be saved at the oriented path, the rotation writes
  a file at that path whose width and height are the height and width of the original; the
  path differs from the input path and contains \<open>_oriented\<close>; the composed entry point
  extracts from it and returns it as the oriented path, and the file is still there when it
  ends.
\<close>

theorem quarter_turn_swaps_canvas:
  assumes "\<not> py_in ''_oriented'' (path_stem p)"
    and "reply_rotation (engine w (length (calls w))) = Some 90"
    and "Image_open w p = Inr img"
    and "\<not> rotation_fails w p 90 (oriented_path p)"
  shows "\<exists>w1 w2 rot. detect_image_orientation w p = (w1, Inr 90)
       \<and> rotate_and_save_image w1 p 90 (Some (oriented_path p)) = (w2, oriented_path p)
       \<and> Image_open w2 (oriented_path p) = Inr rot
       \<and> width rot = height img \<and> height rot = width img
       \<and> oriented_path p \<noteq> p \<and> py_in ''_oriented'' (oriented_path p)
       \<and> extract_card_names_with_orientation w p cid mp
          = with_path (oriented_path p) (extract_card_names w2 (oriented_path p) cid mp)
       \<and> Image_open (fst (extract_card_names_with_orientation w p cid mp)) (oriented_path p)
          = Inr rot"
proof -
  have f: "files w p \<noteq> None"
    using assms(3) by (auto simp: Image_open_def split: option.splits)
  obtain w1 where d: "detect_image_orientation w p = (w1, Inr 90)"
    and s: "same_platform w w1" "files w1 p = files w p"
    using detect_returns [OF assms(2) f] by blast
  have o1: "Image_open w1 p = Inr img"
    using assms(3) s(2) by (simp add: Image_open_def)
  have nf: "\<not> rotation_fails w1 p 90 (oriented_path p)"
    using assms(4) rotation_fails_same_platform [OF s] by simp
  let ?rot = "Image_rotate w1 img 270"
  obtain fm k where rs: "rotate_and_save_image w1 p 90 (Some (oriented_path p))
           = (w1\<lparr>files := (files w1)(oriented_path p \<mapsto> Picture fm k ?rot)\<rparr>, oriented_path p)"
    using rotate_and_save_succeeds [OF _ o1 nf] by auto
  let ?w2 = "w1\<lparr>files := (files w1)(oriented_path p \<mapsto> Picture fm k ?rot)\<rparr>"
  have o2: "Image_open ?w2 (oriented_path p) = Inr ?rot"
    by (simp add: Image_open_def)
  have e: "extract_card_names_with_orientation w p cid mp
          = with_path (oriented_path p) (extract_card_names ?w2 (oriented_path p) cid mp)"
    using assms(1) by (simp add: extract_card_names_with_orientation_def d rs with_path_def)
  have "files (fst (extract_card_names ?w2 (oriented_path p) cid mp)) (oriented_path p)
          = files ?w2 (oriented_path p)"
    by (rule extract_card_names_files [OF not_in_temp_paths])
  then have o3: "Image_open (fst (extract_card_names_with_orientation w p cid mp))
          (oriented_path p) = Inr ?rot"
    unfolding e fst_with_path by (simp add: Image_open_def)
  show ?thesis
    using d rs o2 o3 e Image_rotate_270 [of w1 img] oriented_path_neq [of p]
      oriented_path_marker [of p]
    by blast
qed

subsection \<open>Cleanup of temporary files\<close>

text \<open>
  When \<open>extract_card_names\<close> returns, the \<open>finally\<close> block has run: every file on disk was
  there before with the same content, so the temporary files are gone; and the input file
  is untouched.
\<close>

lemma extract_card_names_returns_clean:
  assumes "extract_card_names w p cid mp = (w', Inr names)"
  shows "(\<forall>q. files w' q = None \<or> files w' q = files w q) \<and> files w' p = files w p"
proof -
  have 2: "files w' p = files w p"
    using extract_card_names_files [OF not_in_temp_paths, where w = w and cid = cid and mp = mp
        and p = p] assms by simp
  obtain w2 b cube L where L: "\<forall>q. q \<notin> set L \<longrightarrow> files w2 q = files w q"
    and e: "extract_card_names w p cid mp
               = (cleanup (fst (run_passes w2 b (extraction_prompt w2 cube) cube p mp)) L,
                  Inr (snd (run_passes w2 b (extraction_prompt w2 cube) cube p mp)))"
    using extract_card_names_shape [of p w cid mp] assms by auto
  have "w' = cleanup (fst (run_passes w2 b (extraction_prompt w2 cube) cube p mp)) L"
    using e assms by simp
  then have "\<forall>q. files w' q = None \<or> files w' q = files w q"
    using L by (simp add: cleanup_files run_passes_files)
  with 2 show ?thesis by simp
qed

section \<open>Example runs\<close>

subsection \<open>A photo that lies on its side\<close>

lemma stem_deck_jpg: "path_stem ''deck.jpg'' = ''deck''"
  by (simp add: path_stem_def path_name_def path_tail_def name_stem_def rfind_dot_def)

lemma oriented_deck_jpg: "oriented_path ''deck.jpg'' = ''deck_oriented.jpg''"
  by (simp add: oriented_path_def stem_deck_jpg suffix_deck_jpg path_sibling_def path_tail_def
      path_root_def)

lemma splitext_deck_oriented_jpg: "splitext_ext ''deck_oriented.jpg'' = ''.jpg''"
  by (simp add: splitext_ext_def rfind_dot_def Let_def)

lemma suffix_deck_oriented_jpg: "path_suffix ''deck_oriented.jpg'' = ''.jpg''"
  by (simp add: path_suffix_def path_name_def path_tail_def name_suffix_def rfind_dot_def)

lemma no_marker_deck_jpg: "\<not> py_in ''_oriented'' (path_stem ''deck.jpg'')"
  by (simp add: stem_deck_jpg)

lemma mode_Image_rotate: "mode (Image_rotate w img a) = mode img"
  by (simp add: Image_rotate_def Let_def split: prod.split)

lemma misnamed_fields:
  "files misnamed_world = [''deck.jpg'' \<mapsto> Picture PNG None (photo RGBA)]"
  "engine misnamed_world = quarter_turn_engine"
  "calls misnamed_world = []"
  "config misnamed_world = Map.empty"
  by (simp_all add: misnamed_world_def world_of_def)

lemma misnamed_open: "Image_open misnamed_world ''deck.jpg'' = Inr (photo RGBA)"
  by (simp add: Image_open_def misnamed_fields)

lemma misnamed_rotation_fails:
  "rotation_fails misnamed_world ''deck.jpg'' 90 (oriented_path ''deck.jpg'')"
  by (simp add: rotation_fails_def misnamed_open oriented_deck_jpg Image_save_def
      splitext_deck_oriented_jpg lower_jpg extension_format_def writable_def mode_Image_rotate
      photo_def)

lemma misnamed_rotation: 
  "reply_rotation (engine misnamed_world (length (calls misnamed_world))) = Some 90"
  by (simp add: misnamed_fields quarter_turn_engine_def reply_rotation_def)

lemma sideways_fields:
  "files sideways_world = [''deck.jpg'' \<mapsto> Picture JPEG None (photo RGB)]"
  "engine sideways_world = quarter_turn_engine"
  "calls sideways_world = []"
  "config sideways_world = Map.empty"
  by (simp_all add: sideways_world_def world_of_def)

lemma sideways_open: "Image_open sideways_world ''deck.jpg'' = Inr (photo RGB)"
  by (simp add: Image_open_def sideways_fields)

lemma sideways_rotation_succeeds:
  "\<not> rotation_fails sideways_world ''deck.jpg'' 90 (oriented_path ''deck.jpg'')"
  by (simp add: rotation_fails_def sideways_open oriented_deck_jpg Image_save_def
      splitext_deck_oriented_jpg lower_jpg extension_format_def writable_def mode_Image_rotate
      photo_def)

lemma sideways_rotation: 
  "reply_rotation (engine sideways_world (length (calls sideways_world))) = Some 90"
  by (simp add: sideways_fields quarter_turn_engine_def reply_rotation_def)

theorem quarter_turn_swaps_canvas_witness:
  "\<not> py_in ''_oriented'' (path_stem ''deck.jpg'')
   \<and> reply_rotation (engine sideways_world (length (calls sideways_world))) = Some 90
   \<and> Image_open sideways_world ''deck.jpg'' = Inr (photo RGB)
   \<and> \<not> rotation_fails sideways_world ''deck.jpg'' 90 (oriented_path ''deck.jpg'')
   \<and> (\<exists>w1 w2 rot. detect_image_orientation sideways_world ''deck.jpg'' = (w1, Inr 90)
       \<and> rotate_and_save_image w1 ''deck.jpg'' 90 (Some ''deck_oriented.jpg'')
          = (w2, ''deck_oriented.jpg'')
       \<and> Image_open w2 ''deck_oriented.jpg'' = Inr rot
       \<and> width rot = 800 \<and> height rot = 1200
       \<and> extract_card_names_with_orientation sideways_world ''deck.jpg'' None True
          = with_path ''deck_oriented.jpg'' (extract_card_names w2 ''deck_oriented.jpg'' None True))"
proof -
  note t = quarter_turn_swaps_canvas [OF no_marker_deck_jpg sideways_rotation sideways_open
      sideways_rotation_succeeds, of None True]
  have "width (photo RGB) = 1200" "height (photo RGB) = 800"
    by (simp_all add: photo_def)
  with t show ?thesis
    using no_marker_deck_jpg sideways_rotation sideways_open sideways_rotation_succeeds
    unfolding oriented_deck_jpg by fastforce
qed

lemma extract_simple:
  assumes "py_lower (path_suffix p) \<in> set [''.jpg'', ''.jpeg'', ''.png'']"
    and "Image_open w p = Inr img"
    and "int (width img) \<le> fst (resolve_max_size w None)"
    and "int (height img) \<le> snd (resolve_max_size w None)"
    and "files w p = Some f"
    and "get_use_multi_pass_detection (config w)"
  shows "extract_card_names w p None True
           = (w\<lparr>calls := calls w @ [Call (ExtractionPrompt None) f]\<rparr>,
              Inr (remdups (pass_result w 0)))"
proof -
  have t: "\<not> truthy (None :: string option)" "\<not> truthy (None :: string list option)"
    by (simp_all add: truthy_def)
  have e: "encode_image w p = Inr f"
    using assms(5) by (simp add: encode_image_def)
  have p: "extraction_prompt w None = ExtractionPrompt None"
    by (simp add: extraction_prompt_def t)
  have r: "run_passes w f (ExtractionPrompt None) None p True
             = (w\<lparr>calls := calls w @ [Call (ExtractionPrompt None) f]\<rparr>,
                remdups (pass_result w 0))"
    using assms(6) by (simp add: run_passes_def multi_pass_extraction_eq t set_update_def)
  show ?thesis
    unfolding extract_card_names_eq [OF convert_accepted [OF assms(1)]
        resize_within [OF assms(2,3,4)]]
    by (simp add: e t p r)
qed

lemma default_config:
  "get_use_multi_pass_detection Map.empty"
  "get_int Map.empty s k d = d"
  by (simp_all add: get_use_multi_pass_detection_def get_bool_def get_int_def)

lemma photo_within_default:
  "config w = Map.empty \<Longrightarrow> int (width (photo m)) \<le> fst (resolve_max_size w None)"
  "config w = Map.empty \<Longrightarrow> int (height (photo m)) \<le> snd (resolve_max_size w None)"
  by (simp_all add: resolve_max_size_def default_config photo_def)

lemma accepted_deck_jpg:
  "py_lower (path_suffix ''deck.jpg'') \<in> set [''.jpg'', ''.jpeg'', ''.png'']"
  by (simp add: suffix_deck_jpg lower_jpg)

lemma misnamed_detect:
  "detect_image_orientation misnamed_world ''deck.jpg''
     = (misnamed_world\<lparr>calls := [Call OrientationPrompt (Picture PNG None (photo RGBA))]\<rparr>,
        Inr 90)"
  by (simp add: detect_image_orientation_def convert_accepted [OF accepted_deck_jpg]
      encode_image_def misnamed_fields quarter_turn_engine_def cleanup_converted_def)

lemma misnamed_run:
  "extract_card_names_with_orientation misnamed_world ''deck.jpg'' None True
     = (misnamed_world\<lparr>calls := [Call OrientationPrompt (Picture PNG None (photo RGBA)),
                                  Call (ExtractionPrompt None) (Picture PNG None (photo RGBA))]\<rparr>,
        Inr \<lparr>card_names = [''Opt''], oriented_image_path = ''deck.jpg''\<rparr>)"
proof -
  let ?f = "Picture PNG None (photo RGBA)"
  let ?w1 = "misnamed_world\<lparr>calls := [Call OrientationPrompt ?f]\<rparr>"
  have s: "same_platform misnamed_world ?w1" "files ?w1 ''deck.jpg'' = files misnamed_world ''deck.jpg''"
    by (simp_all add: same_platform_def)
  have "rotation_fails ?w1 ''deck.jpg'' 90 (oriented_path ''deck.jpg'')"
    using misnamed_rotation_fails rotation_fails_same_platform [OF s] by simp
  then have rs: "rotate_and_save_image ?w1 ''deck.jpg'' 90 (Some (oriented_path ''deck.jpg''))
          = (?w1, ''deck.jpg'')"
    by (simp add: rotate_and_save_fails)
  have o: "Image_open ?w1 ''deck.jpg'' = Inr (photo RGBA)"
    by (simp add: Image_open_def misnamed_fields)
  have pr: "pass_result ?w1 0 = [''Opt'']"
    by (simp add: pass_result_def misnamed_fields quarter_turn_engine_def reply_names_def)
  have ex: "extract_card_names ?w1 ''deck.jpg'' None True
          = (?w1\<lparr>calls := calls ?w1 @ [Call (ExtractionPrompt None) ?f]\<rparr>, Inr [''Opt''])"
    using extract_simple [OF accepted_deck_jpg o photo_within_default, of ?f]
    by (simp add: misnamed_fields default_config pr)
  show ?thesis
    by (simp add: extract_card_names_with_orientation_def no_marker_deck_jpg misnamed_detect
        rs ex)
qed

text \<open>
  Claim C7 does not hold for every invocation in which the detection returns 90: a PNG with
  an alpha channel stored under the name \<open>deck.jpg\<close> decodes to mode \<open>RGBA\<close>, which cannot be
  saved to a \<open>.jpg\<close> path, so the rotation fails; the path returned is the input path, it
  does not contain the marker, and no file has been written.
\<close>

theorem quarter_turn_counterexample:
  "snd (detect_image_orientation misnamed_world ''deck.jpg'') = Inr 90
   \<and> snd (extract_card_names_with_orientation misnamed_world ''deck.jpg'' None True)
       = Inr \<lparr>card_names = [''Opt''], oriented_image_path = ''deck.jpg''\<rparr>
   \<and> \<not> py_in ''_oriented'' ''deck.jpg''
   \<and> files (fst (extract_card_names_with_orientation misnamed_world ''deck.jpg'' None True))
       = files misnamed_world"
  by (simp add: misnamed_detect misnamed_run)

theorem failed_rotation_returns_input_witness:
  "(90::int) \<noteq> 0
   \<and> \<not> py_in ''_oriented'' (path_stem ''deck.jpg'')
   \<and> files misnamed_world ''deck.jpg'' \<noteq> None
   \<and> reply_rotation (engine misnamed_world (length (calls misnamed_world))) = Some 90
   \<and> rotation_fails misnamed_world ''deck.jpg'' 90 (oriented_path ''deck.jpg'')
   \<and> (\<exists>w1. detect_image_orientation misnamed_world ''deck.jpg'' = (w1, Inr 90)
         \<and> rotate_and_save_image misnamed_world ''deck.jpg'' 90 (Some ''deck_oriented.jpg'')
            = (misnamed_world, ''deck.jpg'')
         \<and> extract_card_names_with_orientation misnamed_world ''deck.jpg'' None True
            = with_path ''deck.jpg'' (extract_card_names w1 ''deck.jpg'' None True))
   \<and> snd (extract_card_names_with_orientation misnamed_world ''deck.jpg'' None True)
       = Inr \<lparr>card_names = [''Opt''], oriented_image_path = ''deck.jpg''\<rparr>"
proof -
  have n: "(90::int) \<noteq> 0" by simp
  have f: "files misnamed_world ''deck.jpg'' \<noteq> None"
    by (simp add: misnamed_fields)
  note t = failed_rotation_returns_input [OF n, of misnamed_world "''deck.jpg''"
      "oriented_path ''deck.jpg''" None True]
  have r: "snd (extract_card_names_with_orientation misnamed_world ''deck.jpg'' None True)
       = Inr \<lparr>card_names = [''Opt''], oriented_image_path = ''deck.jpg''\<rparr>"
    by (simp add: misnamed_run)
  show ?thesis
    using t n f r no_marker_deck_jpg misnamed_rotation misnamed_rotation_fails
    unfolding oriented_deck_jpg by blast
qed

subsection \<open>A photo that is already oriented\<close>

lemma stem_suffix_deck_oriented_jpg:
  "path_stem ''deck_oriented.jpg'' = ''deck_oriented''"
  by (simp add: path_stem_def path_name_def path_tail_def name_stem_def rfind_dot_def)

lemma oriented_fields:
  "files oriented_world = [''deck_oriented.jpg'' \<mapsto> Picture JPEG None (photo RGB)]"
  "engine oriented_world = three_pass_engine"
  "calls oriented_world = []"
  "config oriented_world = Map.empty"
  by (simp_all add: oriented_world_def world_of_def)

lemma oriented_extract:
  "extract_card_names oriented_world ''deck_oriented.jpg'' None True
     = (oriented_world\<lparr>calls := [Call (ExtractionPrompt None) (Picture JPEG None (photo RGB))]\<rparr>,
        Inr [''Lightning Bolt'', ''lightning bolt''])"
proof -
  have a: "py_lower (path_suffix ''deck_oriented.jpg'') \<in> set [''.jpg'', ''.jpeg'', ''.png'']"
    by (simp add: suffix_deck_oriented_jpg lower_jpg)
  have o: "Image_open oriented_world ''deck_oriented.jpg'' = Inr (photo RGB)"
    by (simp add: Image_open_def oriented_fields)
  have pr: "pass_result oriented_world 0 = [''Lightning Bolt'', ''lightning bolt'']"
    by (simp add: pass_result_def oriented_fields three_pass_engine_def reply_names_def)
  show ?thesis
    using extract_simple [OF a o photo_within_default, of "Picture JPEG None (photo RGB)"]
    by (simp add: oriented_fields default_config pr)
qed

theorem oriented_marker_skips_detection_witness:
  "py_in ''_oriented'' (path_stem ''deck_oriented.jpg'')
   \<and> extract_card_names_with_orientation oriented_world ''deck_oriented.jpg'' None True
       = (oriented_world\<lparr>calls :=
            [Call (ExtractionPrompt None) (Picture JPEG None (photo RGB))]\<rparr>,
          Inr \<lparr>card_names = [''Lightning Bolt'', ''lightning bolt''],
               oriented_image_path = ''deck_oriented.jpg''\<rparr>)"
proof -
  have a: "py_in ''_oriented'' (path_stem ''deck_oriented.jpg'')"
    by (simp add: stem_suffix_deck_oriented_jpg)
  from oriented_marker_skips_detection [OF a, of oriented_world None True]
  have "extract_card_names_with_orientation oriented_world ''deck_oriented.jpg'' None True
           = with_path ''deck_oriented.jpg''
               (extract_card_names oriented_world ''deck_oriented.jpg'' None True)"
    by blast
  then show ?thesis
    using a by (simp add: oriented_extract with_path_def)
qed

subsection \<open>A fetch that raises\<close>

lemma suffix_deck_webp: "path_suffix ''deck.webp'' = ''.webp''"
  by (simp add: path_suffix_def path_name_def path_tail_def name_suffix_def rfind_dot_def)

lemma converted_jpg_deck_webp: "converted_jpg ''deck.webp'' = ''deck_converted.jpg''"
  by (simp add: converted_jpg_def stem_deck_webp path_sibling_def path_tail_def path_root_def)

lemma null_mainboard_fields:
  "files null_mainboard_world = [''deck.webp'' \<mapsto> Picture (Other ''WEBP'') None (photo RGB)]"
  "cubecobra null_mainboard_world = (\<lambda>i. WrongType)"
  "calls null_mainboard_world = []"
  "config null_mainboard_world = Map.empty"
  by (simp_all add: null_mainboard_world_def world_of_def)

lemma null_mainboard_convert:
  "convert_to_compatible_format null_mainboard_world ''deck.webp''
     = (null_mainboard_world\<lparr>files := (files null_mainboard_world)
            (''deck_converted.jpg'' \<mapsto> Picture JPEG (Some 95) (photo RGB))\<rparr>,
        ''deck_converted.jpg'')"
  by (simp add: convert_to_compatible_format_def suffix_deck_webp py_lower_def lower_char_def
      Image_open_def null_mainboard_fields photo_def Image_save_def writable_def
      converted_jpg_deck_webp default_config Let_def)

text \<open>
  Claim C8 at a failing input. A WebP photo is converted to a temporary JPEG; CubeCobra
  then answers with \<open>null\<close> for the mainboard, the \<open>for\<close> loop of \<open>fetch_cubecobra_list\<close>
  raises \<open>TypeError\<close>, which its \<open>except\<close> clauses do not catch, and the exception leaves
  \<open>extract_card_names\<close> before its \<open>try\<close> statement is entered: the temporary file, which did
  not exist before, is still on disk.
\<close>

theorem temporary_file_left_behind:
  "extract_card_names null_mainboard_world ''deck.webp'' (Some ''cube'') True
     = (null_mainboard_world\<lparr>files := (files null_mainboard_world)
            (''deck_converted.jpg'' \<mapsto> Picture JPEG (Some 95) (photo RGB))\<rparr>,
        Inl TypeError)
   \<and> files null_mainboard_world ''deck_converted.jpg'' = None"
proof -
  let ?f = "Picture JPEG (Some 95) (photo RGB)"
  let ?w1 = "null_mainboard_world\<lparr>files := (files null_mainboard_world)
            (''deck_converted.jpg'' \<mapsto> ?f)\<rparr>"
  have o: "Image_open ?w1 ''deck_converted.jpg'' = Inr (photo RGB)"
    by (simp add: Image_open_def)
  have c: "config ?w1 = Map.empty"
    by (simp add: null_mainboard_fields)
  have res: "resize_image_if_needed ?w1 ''deck_converted.jpg'' None
               = (?w1, Inr ''deck_converted.jpg'')"
    using resize_within [OF o photo_within_default [OF c]] by simp
  have e: "encode_image ?w1 ''deck_converted.jpg'' = Inr ?f"
    by (simp add: encode_image_def)
  have t: "truthy (Some ''cube'')"
    by (simp add: truthy_def)
  have f: "fetch_cubecobra_list ?w1 ''cube'' = Inl TypeError"
    by (simp add: fetch_cubecobra_list_def null_mainboard_fields)
  have 1: "extract_card_names null_mainboard_world ''deck.webp'' (Some ''cube'') True
     = (?w1, Inl TypeError)"
    unfolding extract_card_names_eq [OF null_mainboard_convert res]
    by (simp add: e t f)
  have 2: "files null_mainboard_world ''deck_converted.jpg'' = None"
    by (simp add: null_mainboard_fields)
  from 1 2 show ?thesis by simp
qed

end
